theory Spec2Isabelle
  imports Main "HOL-Library.AList" "HOL-Library.Char_ord" "HOL-Library.List_Lexorder"
begin

section \<open>Announcements endpoints of the High School Management System API\<close>

text \<open>
  A shallow embedding of \<^verbatim>\<open>src/backend/routers/announcements.py\<close>.
  Every handler is a function of the things it reads (the collaborators it calls, the
  announcements collection, the clock) to the thing it returns or raises and the
  collection it leaves behind.
\<close>

subsection \<open>Values, documents, exceptions\<close>

text \<open>
  A BSON ObjectId is 12 bytes; it is read here as the number those bytes spell
  (big-endian), so that the order of the numbers is the order of the ids.
\<close>

type_synonym objectid = nat

text \<open>The values that occur in the documents this module touches.\<close>

datatype bval = Str string | Null | Oid objectid

text \<open>
  A Python \<^verbatim>\<open>dict\<close> with string keys: an association list, in insertion order.
  \<^verbatim>\<open>d[k] = v\<close> is \<open>AList.update k v d\<close> (an existing key keeps its place, a new key
  goes to the end), \<^verbatim>\<open>d.get(k)\<close> is \<open>map_of d k\<close>.
\<close>

type_synonym doc = "(string \<times> bval) list"

type_synonym collection = "doc list"

text \<open>The exceptions that the code and its collaborators raise.\<close>

datatype py_exn =
    BinasciiError
  | UnicodeDecodeError
  | ValueError
  | InvalidId
  | TypeError
  | KeyError string
  | DuplicateKeyError
  | StoreError

text \<open>
  What a handler ends with when it does not return: an \<^verbatim>\<open>HTTPException\<close> with its
  status code and detail, or an exception nobody catches (the framework answers 500).
\<close>

datatype failure = HTTPException nat string | Unhandled py_exn

text \<open>
  The collaborators that live outside this file: the standard library, \<^verbatim>\<open>bson\<close>, the
  identity store and the password hasher. They are parameters of every handler.
  \<^item> \<open>a2b_base64\<close>: \<^verbatim>\<open>binascii.a2b_base64\<close> on ASCII bytes;
  \<^item> \<open>decode_utf8\<close>: \<^verbatim>\<open>bytes.decode('utf-8')\<close>;
  \<^item> \<open>teachers_find_one\<close>: \<^verbatim>\<open>teachers_collection.find_one({"_id": username})\<close>;
  \<^item> \<open>hash_matches\<close>: the check of a secret against a stored hash;
  \<^item> \<open>fromisoformat\<close>: whether \<^verbatim>\<open>datetime.fromisoformat\<close> returns (rather than
    raising \<^verbatim>\<open>ValueError\<close>);
  \<^item> \<open>ObjectId\<close>: the constructor \<^verbatim>\<open>bson.ObjectId(s)\<close> on a string;
  \<^item> \<open>oid_str\<close>: \<^verbatim>\<open>str\<close> of an ObjectId.
\<close>

record env =
  a2b_base64 :: "string \<Rightarrow> py_exn + string"
  decode_utf8 :: "string \<Rightarrow> py_exn + string"
  teachers_find_one :: "string \<Rightarrow> py_exn + doc option"
  hash_matches :: "string \<Rightarrow> string \<Rightarrow> bool"
  fromisoformat :: "string \<Rightarrow> bool"
  ObjectId :: "string \<Rightarrow> py_exn + objectid"
  oid_str :: "objectid \<Rightarrow> string"

subsection \<open>Request bodies\<close>

record AnnouncementCreate =
  title :: string
  message :: string
  start_date :: "string option"
  expiration_date :: string

record AnnouncementUpdate =
  upd_title :: "string option"
  upd_message :: "string option"
  upd_start_date :: "string option"
  upd_expiration_date :: "string option"

text \<open>
  The \<^verbatim>\<open>Field(..., min_length=, max_length=)\<close> constraints of the two models; the
  framework checks them before a handler runs.
\<close>

definition valid_AnnouncementCreate :: "AnnouncementCreate \<Rightarrow> bool" where
  "valid_AnnouncementCreate a \<longleftrightarrow>
     1 \<le> length (title a) \<and> length (title a) \<le> 200 \<and>
     1 \<le> length (message a) \<and> length (message a) \<le> 2000"

definition valid_AnnouncementUpdate :: "AnnouncementUpdate \<Rightarrow> bool" where
  "valid_AnnouncementUpdate a \<longleftrightarrow>
     (case upd_title a of None \<Rightarrow> True | Some t \<Rightarrow> 1 \<le> length t \<and> length t \<le> 200) \<and>
     (case upd_message a of None \<Rightarrow> True | Some m \<Rightarrow> 1 \<le> length m \<and> length m \<le> 2000)"

subsection \<open>Python helpers\<close>

text \<open>\<^verbatim>\<open>not d\<close> for the result of \<^verbatim>\<open>find_one\<close>: true of \<^verbatim>\<open>None\<close> and of an empty dict.\<close>

definition py_not :: "doc option \<Rightarrow> bool" where
  "py_not r = (case r of None \<Rightarrow> True | Some d \<Rightarrow> d = [])"

text \<open>\<^verbatim>\<open>str(v)\<close>.\<close>

definition py_str :: "env \<Rightarrow> bval \<Rightarrow> string" where
  "py_str env v = (case v of Str s \<Rightarrow> s | Null \<Rightarrow> ''None'' | Oid i \<Rightarrow> oid_str env i)"

text \<open>\<^verbatim>\<open>decoded.split(':', 1)\<close> unpacked into two names: \<open>None\<close> is the \<^verbatim>\<open>ValueError\<close>
  of unpacking a one-element list.\<close>

definition split_colon :: "string \<Rightarrow> (string \<times> string) option" where
  "split_colon s =
     (if CHR '':'' \<in> set s
      then Some (takeWhile (\<lambda>c. c \<noteq> CHR '':'') s, tl (dropWhile (\<lambda>c. c \<noteq> CHR '':'') s))
      else None)"

text \<open>\<^verbatim>\<open>s.replace('Z', '+00:00')\<close>: every \<^verbatim>\<open>Z\<close> is replaced.\<close>

definition replace_Z :: "string \<Rightarrow> string" where
  "replace_Z s = concat (map (\<lambda>c. if c = CHR ''Z'' then ''+00:00'' else [c]) s)"

text \<open>
  \<^verbatim>\<open>base64.b64decode(s)\<close> on a \<^verbatim>\<open>str\<close>: the standard library first encodes the
  string as ASCII and raises a plain \<^verbatim>\<open>ValueError\<close> when it cannot, then hands the
  bytes to \<^verbatim>\<open>binascii.a2b_base64\<close>.
\<close>

definition is_ascii :: "char \<Rightarrow> bool" where
  "is_ascii c \<longleftrightarrow> (of_char c :: nat) < 128"

definition b64decode :: "env \<Rightarrow> string \<Rightarrow> py_exn + string" where
  "b64decode env s = (if list_all is_ascii s then a2b_base64 env s else Inl ValueError)"

subsection \<open>The password check\<close>

text \<open>
  Modelled from the spec: \<^verbatim>\<open>verify_password\<close> is defined in the database module,
  which is not part of the sources at hand. The spec gives it as
  \<^verbatim>\<open>verify(stored_hash, supplied_secret) -> bool\<close>, and says that with no hash on
  file (the empty string the caller passes) it fails rather than raises.
\<close>

definition verify_password :: "env \<Rightarrow> bval \<Rightarrow> string \<Rightarrow> bool" where
  "verify_password env h p =
     (case h of Str s \<Rightarrow> s \<noteq> [] \<and> hash_matches env s p | _ \<Rightarrow> False)"

subsection \<open>The announcements collection\<close>

text \<open>
  Modelled from the spec: \<^verbatim>\<open>announcements_collection\<close> comes from the database
  module, which is not part of the sources at hand. The spec lists its operations
  (insert, find one, find by predicate, update one, delete one); the collection is a
  list of documents in insertion order. The three query shapes the handlers use:
  no filter, \<^verbatim>\<open>{"_id": oid}\<close> and \<^verbatim>\<open>{field: {"$gt": string}}\<close>. The last one
  selects the documents whose field is a string strictly greater than the given one.
\<close>

datatype query = Q_all | Q_id objectid | Q_gt string string

fun matches :: "query \<Rightarrow> doc \<Rightarrow> bool" where
  "matches Q_all d = True"
| "matches (Q_id i) d = (map_of d ''_id'' = Some (Oid i))"
| "matches (Q_gt f v) d = (case map_of d f of Some (Str s) \<Rightarrow> v < s | _ \<Rightarrow> False)"

definition coll_find :: "collection \<Rightarrow> query \<Rightarrow> doc list" where
  "coll_find c q = filter (matches q) c"

definition find_one :: "collection \<Rightarrow> query \<Rightarrow> doc option" where
  "find_one c q = List.find (matches q) c"

text \<open>
  \<^verbatim>\<open>insert_one(doc)\<close>: a document without \<^verbatim>\<open>_id\<close> gets the generated id
  (also in the caller's dict); an id already in the collection is refused.
\<close>

definition insert_one :: "collection \<Rightarrow> objectid \<Rightarrow> doc \<Rightarrow> py_exn + (collection \<times> doc \<times> bval)" where
  "insert_one c new_id d =
     (let d' = (if map_of d ''_id'' = None then AList.update ''_id'' (Oid new_id) d else d);
          i = (case map_of d' ''_id'' of Some v \<Rightarrow> v | None \<Rightarrow> Oid new_id)
      in if list_ex (\<lambda>e. map_of e ''_id'' = Some i) c then Inl DuplicateKeyError
         else Inr (c @ [d'], d', i))"

text \<open>\<^verbatim>\<open>{"$set": upd}\<close> applied to one document.\<close>

definition apply_set :: "doc \<Rightarrow> doc \<Rightarrow> doc" where
  "apply_set upd d = fold (\<lambda>(k, v). AList.update k v) upd d"

text \<open>
  \<^verbatim>\<open>update_one({"_id": i}, {"$set": upd})\<close>: the first matching document is
  rewritten; the count returned is \<^verbatim>\<open>modified_count\<close>, which is 0 when nothing
  matched and also when the document is the same after the update as before.
\<close>

fun update_one :: "collection \<Rightarrow> objectid \<Rightarrow> doc \<Rightarrow> collection \<times> nat" where
  "update_one [] i upd = ([], 0)"
| "update_one (d # ds) i upd =
     (if matches (Q_id i) d
      then (apply_set upd d # ds, if apply_set upd d = d then 0 else 1)
      else (d # fst (update_one ds i upd), snd (update_one ds i upd)))"

text \<open>\<^verbatim>\<open>delete_one({"_id": i})\<close>: the first matching document goes; the count
  returned is \<^verbatim>\<open>deleted_count\<close>.\<close>

fun delete_one :: "collection \<Rightarrow> objectid \<Rightarrow> collection \<times> nat" where
  "delete_one [] i = ([], 0)"
| "delete_one (d # ds) i =
     (if matches (Q_id i) d then (ds, 1)
      else (d # fst (delete_one ds i), snd (delete_one ds i)))"

subsection \<open>get_current_user\<close>

definition get_current_user :: "env \<Rightarrow> string \<Rightarrow> failure + doc" where
  "get_current_user env credentials =
     (case (case b64decode env credentials of
              Inl e \<Rightarrow> Inl e
            | Inr raw \<Rightarrow> decode_utf8 env raw) of
        Inl e \<Rightarrow>
          (if e = BinasciiError \<or> e = UnicodeDecodeError
           then Inl (HTTPException 401 ''Invalid token encoding'')
           else Inl (Unhandled e))
      | Inr decoded \<Rightarrow>
          (case split_colon decoded of
             None \<Rightarrow> Inl (HTTPException 401 ''Token format invalid'')
           | Some (username, password) \<Rightarrow>
               (case teachers_find_one env username of
                  Inl e \<Rightarrow> Inl (HTTPException 500 ''Database error during authentication'')
                | Inr teacher \<Rightarrow>
                    (case teacher of
                       None \<Rightarrow> Inl (HTTPException 401 ''Invalid credentials'')
                     | Some t \<Rightarrow>
                         if t = [] \<or>
                            \<not> verify_password env
                                (case map_of t ''password'' of None \<Rightarrow> Str [] | Some h \<Rightarrow> h)
                                password
                         then Inl (HTTPException 401 ''Invalid credentials'')
                         else Inr t))))"

subsection \<open>validate_date\<close>

definition validate_date :: "env \<Rightarrow> string \<Rightarrow> bool" where
  "validate_date env date_str = fromisoformat env (replace_Z date_str)"

subsection \<open>The clock\<close>

text \<open>
  \<^verbatim>\<open>datetime.utcnow()\<close> is a naive datetime, and \<^verbatim>\<open>isoformat()\<close> writes it as
  \<^verbatim>\<open>YYYY-MM-DDTHH:MM:SS\<close>, followed by \<^verbatim>\<open>.ffffff\<close> when the microsecond is not
  zero; every field is padded with zeros to its width. \<open>isoformat_sep\<close> is
  \<^verbatim>\<open>isoformat(sep=c)\<close>, which writes \<open>c\<close> where the \<^verbatim>\<open>T\<close> is; with a space it
  is \<^verbatim>\<open>str\<close> of a datetime. \<open>before\<close> is the order of naive datetimes in time.
\<close>

record datetime =
  year :: nat
  month :: nat
  day :: nat
  hour :: nat
  minute :: nat
  second :: nat
  microsecond :: nat

definition valid_datetime :: "datetime \<Rightarrow> bool" where
  "valid_datetime d \<longleftrightarrow>
     1 \<le> year d \<and> year d \<le> 9999 \<and> 1 \<le> month d \<and> month d \<le> 12 \<and>
     1 \<le> day d \<and> day d \<le> 31 \<and> hour d < 24 \<and> minute d < 60 \<and> second d < 60 \<and>
     microsecond d < 1000000"

text \<open>The decimal digits of \<open>n\<close>, padded with zeros to width \<open>w\<close>.\<close>

fun digits :: "nat \<Rightarrow> nat \<Rightarrow> string" where
  "digits 0 n = []"
| "digits (Suc w) n = digits w (n div 10) @ [char_of (48 + n mod 10)]"

definition isoformat_sep :: "char \<Rightarrow> datetime \<Rightarrow> string" where
  "isoformat_sep sep d =
     digits 4 (year d) @ ''-'' @ digits 2 (month d) @ ''-'' @ digits 2 (day d) @ [sep] @
     digits 2 (hour d) @ '':'' @ digits 2 (minute d) @ '':'' @ digits 2 (second d) @
     (if microsecond d = 0 then [] else ''.'' @ digits 6 (microsecond d))"

definition isoformat :: "datetime \<Rightarrow> string" where
  "isoformat d = isoformat_sep CHR ''T'' d"

definition before :: "datetime \<Rightarrow> datetime \<Rightarrow> bool" where
  "before a b \<longleftrightarrow>
     year a < year b \<or> year a = year b \<and>
    (month a < month b \<or> month a = month b \<and>
    (day a < day b \<or> day a = day b \<and>
    (hour a < hour b \<or> hour a = hour b \<and>
    (minute a < minute b \<or> minute a = minute b \<and>
    (second a < second b \<or> second a = second b \<and>
     microsecond a < microsecond b)))))"

subsection \<open>The two listings\<close>

text \<open>\<^verbatim>\<open>announcement["_id"] = str(announcement["_id"])\<close>, for each document found.\<close>

definition stringify_id :: "env \<Rightarrow> doc \<Rightarrow> failure + doc" where
  "stringify_id env d =
     (case map_of d ''_id'' of
        None \<Rightarrow> Inl (Unhandled (KeyError ''_id''))
      | Some v \<Rightarrow> Inr (AList.update ''_id'' (Str (py_str env v)) d))"

fun stringify_ids :: "env \<Rightarrow> doc list \<Rightarrow> failure + doc list" where
  "stringify_ids env [] = Inr []"
| "stringify_ids env (d # ds) =
     (case stringify_id env d of
        Inl e \<Rightarrow> Inl e
      | Inr d' \<Rightarrow> (case stringify_ids env ds of Inl e \<Rightarrow> Inl e | Inr ds' \<Rightarrow> Inr (d' # ds')))"

text \<open>The sort key: \<^verbatim>\<open>x.get("created_at", "")\<close>.\<close>

definition created_key :: "doc \<Rightarrow> bval" where
  "created_key d = (case map_of d ''created_at'' of None \<Rightarrow> Str [] | Some v \<Rightarrow> v)"

fun is_Str :: "bval \<Rightarrow> bool" where
  "is_Str (Str s) = True"
| "is_Str v = False"

fun is_Oid :: "bval \<Rightarrow> bool" where
  "is_Oid (Oid i) = True"
| "is_Oid v = False"

fun str_of :: "bval \<Rightarrow> string" where
  "str_of (Str s) = s"
| "str_of v = []"

fun oid_of :: "bval \<Rightarrow> objectid" where
  "oid_of (Oid i) = i"
| "oid_of v = 0"

text \<open>
  \<^verbatim>\<open>announcements.sort(key=..., reverse=True)\<close>. Python reverses the list, sorts it
  stably in ascending order and reverses it again. A list shorter than two is not
  compared at all; otherwise the keys must all be strings or all be ObjectIds, since
  any other pair of keys (a \<^verbatim>\<open>None\<close> with anything, a string with an ObjectId) raises
  \<^verbatim>\<open>TypeError\<close> when compared.
\<close>

definition sort_newest_first :: "doc list \<Rightarrow> failure + doc list" where
  "sort_newest_first xs =
     (if length xs < 2 then Inr xs
      else if list_all (\<lambda>d. is_Str (created_key d)) xs
        then Inr (rev (sort_key (\<lambda>d. str_of (created_key d)) (rev xs)))
      else if list_all (\<lambda>d. is_Oid (created_key d)) xs
        then Inr (rev (sort_key (\<lambda>d. oid_of (created_key d)) (rev xs)))
      else Inl (Unhandled TypeError))"

text \<open>\<open>now\<close> is the string \<^verbatim>\<open>datetime.utcnow().isoformat()\<close>.\<close>

definition get_announcements :: "env \<Rightarrow> collection \<Rightarrow> string \<Rightarrow> failure + doc list" where
  "get_announcements env c now =
     (case stringify_ids env (coll_find c (Q_gt ''expiration_date'' now)) of
        Inl e \<Rightarrow> Inl e
      | Inr announcements \<Rightarrow> sort_newest_first announcements)"

definition get_all_announcements :: "env \<Rightarrow> collection \<Rightarrow> doc \<Rightarrow> failure + doc list" where
  "get_all_announcements env c current_user =
     (case stringify_ids env (coll_find c Q_all) of
        Inl e \<Rightarrow> Inl e
      | Inr announcements \<Rightarrow> sort_newest_first announcements)"

subsection \<open>create_announcement\<close>

text \<open>
  \<open>now\<close> is the clock reading and \<open>new_id\<close> the ObjectId that the store generates for the
  insert. The result is what the handler returns or raises, with the collection after it.
\<close>

definition announcement_doc :: "AnnouncementCreate \<Rightarrow> bval \<Rightarrow> string \<Rightarrow> doc" where
  "announcement_doc a username now =
     [(''title'', Str (title a)),
      (''message'', Str (message a)),
      (''start_date'', (case start_date a of None \<Rightarrow> Null | Some s \<Rightarrow> Str s)),
      (''expiration_date'', Str (expiration_date a)),
      (''created_by'', username),
      (''created_at'', Str now)]"

definition create_announcement ::
  "env \<Rightarrow> collection \<Rightarrow> string \<Rightarrow> objectid \<Rightarrow> AnnouncementCreate \<Rightarrow> doc \<Rightarrow> (failure + doc) \<times> collection" where
  "create_announcement env c now new_id announcement current_user =
     (if (case start_date announcement of None \<Rightarrow> False
          | Some s \<Rightarrow> s \<noteq> [] \<and> \<not> validate_date env s)
      then (Inl (HTTPException 400 ''Invalid start_date format''), c)
      else if \<not> validate_date env (expiration_date announcement)
      then (Inl (HTTPException 400 ''Invalid expiration_date format''), c)
      else (case map_of current_user ''username'' of
              None \<Rightarrow> (Inl (Unhandled (KeyError ''username'')), c)
            | Some username \<Rightarrow>
                (case insert_one c new_id (announcement_doc announcement username now) of
                   Inl e \<Rightarrow> (Inl (Unhandled e), c)
                 | Inr (c', d, inserted_id) \<Rightarrow>
                     (Inr (AList.update ''_id'' (Str (py_str env inserted_id)) d), c'))))"

subsection \<open>update_announcement\<close>

text \<open>The update document: one entry for each field of the body that is not \<^verbatim>\<open>None\<close>.\<close>

definition update_doc :: "AnnouncementUpdate \<Rightarrow> doc" where
  "update_doc a =
     (case upd_title a of None \<Rightarrow> [] | Some t \<Rightarrow> [(''title'', Str t)]) @
     (case upd_message a of None \<Rightarrow> [] | Some m \<Rightarrow> [(''message'', Str m)]) @
     (case upd_start_date a of None \<Rightarrow> [] | Some s \<Rightarrow> [(''start_date'', Str s)]) @
     (case upd_expiration_date a of None \<Rightarrow> [] | Some e \<Rightarrow> [(''expiration_date'', Str e)])"

definition update_announcement ::
  "env \<Rightarrow> collection \<Rightarrow> string \<Rightarrow> AnnouncementUpdate \<Rightarrow> doc \<Rightarrow> (failure + doc) \<times> collection" where
  "update_announcement env c announcement_id announcement current_user =
     (case ObjectId env announcement_id of
        Inl e \<Rightarrow>
          (if e = InvalidId then (Inl (HTTPException 400 ''Invalid announcement ID''), c)
           else (Inl (Unhandled e), c))
      | Inr obj_id \<Rightarrow>
          if py_not (find_one c (Q_id obj_id))
          then (Inl (HTTPException 404 ''Announcement not found''), c)
          else if (case upd_start_date announcement of None \<Rightarrow> False
                   | Some s \<Rightarrow> \<not> validate_date env s)
          then (Inl (HTTPException 400 ''Invalid start_date format''), c)
          else if (case upd_expiration_date announcement of None \<Rightarrow> False
                   | Some s \<Rightarrow> \<not> validate_date env s)
          then (Inl (HTTPException 400 ''Invalid expiration_date format''), c)
          else if update_doc announcement = []
          then (Inl (HTTPException 400 ''No fields to update''), c)
          else (case update_one c obj_id (update_doc announcement) of
                  (c', modified_count) \<Rightarrow>
                    if modified_count = 0
                    then (Inl (HTTPException 500 ''Failed to update announcement''), c')
                    else (case find_one c' (Q_id obj_id) of
                            None \<Rightarrow> (Inl (Unhandled TypeError), c')
                          | Some updated \<Rightarrow>
                              (case stringify_id env updated of
                                 Inl e \<Rightarrow> (Inl e, c')
                               | Inr r \<Rightarrow> (Inr r, c')))))"

subsection \<open>delete_announcement\<close>

definition delete_announcement ::
  "env \<Rightarrow> collection \<Rightarrow> string \<Rightarrow> doc \<Rightarrow> (failure + doc) \<times> collection" where
  "delete_announcement env c announcement_id current_user =
     (case ObjectId env announcement_id of
        Inl e \<Rightarrow> (Inl (HTTPException 400 ''Invalid announcement ID''), c)
      | Inr obj_id \<Rightarrow>
          if py_not (find_one c (Q_id obj_id))
          then (Inl (HTTPException 404 ''Announcement not found''), c)
          else (case delete_one c obj_id of
                  (c', deleted_count) \<Rightarrow>
                    if deleted_count = 0
                    then (Inl (HTTPException 500 ''Failed to delete announcement''), c')
                    else (Inr [(''message'', Str ''Announcement deleted successfully'')], c')))"

subsection \<open>Test doubles\<close>

text \<open>
  Stand-ins for the collaborators, used to run the handlers on concrete requests: an
  identity store with three entries (\<open>alice\<close> with a \<^verbatim>\<open>username\<close> field, \<open>bob\<close> without
  one, \<open>down\<close> for which the lookup fails), a decoder that knows three tokens, a date
  parser that knows three timestamps and an ObjectId constructor that knows three ids;
  then two principals, three stored announcements (the third expired and without
  created_at), a few request bodies, and three more announcements with the times
  they expire at.
\<close>

definition test_teachers :: "string \<Rightarrow> py_exn + doc option" where
  "test_teachers u =
     (if u = ''alice'' then
        Inr (Some [(''_id'', Str ''alice''), (''username'', Str ''alice''),
                   (''password'', Str ''hash:secret'')])
      else if u = ''bob'' then
        Inr (Some [(''_id'', Str ''bob''), (''password'', Str ''hash:hunter2'')])
      else if u = ''down'' then Inl StoreError
      else Inr None)"

definition test_env :: env where
  "test_env =
     \<lparr> a2b_base64 = (\<lambda>s. if s = ''YWxpY2U6c2VjcmV0'' then Inr ''alice:secret''
                        else if s = ''Ym9iOmh1bnRlcjI='' then Inr ''bob:hunter2''
                        else if s = ''YWxpY2U='' then Inr ''alice''
                        else Inl BinasciiError),
       decode_utf8 = (\<lambda>b. Inr b),
       teachers_find_one = test_teachers,
       hash_matches = (\<lambda>h p. h = ''hash:'' @ p),
       fromisoformat = (\<lambda>s. s \<in> set [''2030-01-01T00:00:00+00:00'',
                                        ''2020-01-01T00:00:00+00:00'', ''2030-01-01'']),
       ObjectId = (\<lambda>s. if s = ''65f0000000000000000000a1'' then Inr 1
                      else if s = ''65f0000000000000000000a2'' then Inr 2
                      else if s = ''65f0000000000000000000a3'' then Inr 3
                      else Inl InvalidId),
       oid_str = (\<lambda>i. if i = 1 then ''65f0000000000000000000a1''
                     else if i = 2 then ''65f0000000000000000000a2''
                     else ''65f0000000000000000000a3'') \<rparr>"

definition alice :: doc where
  "alice = [(''_id'', Str ''alice''), (''username'', Str ''alice''),
            (''password'', Str ''hash:secret'')]"

definition bob :: doc where
  "bob = [(''_id'', Str ''bob''), (''password'', Str ''hash:hunter2'')]"

definition exams :: AnnouncementCreate where
  "exams = \<lparr>title = ''Exams'', message = ''Start Monday'', start_date = None,
            expiration_date = ''2030-01-01T00:00:00Z''\<rparr>"

definition exams_doc :: doc where
  "exams_doc =
     [(''title'', Str ''Exams''), (''message'', Str ''Start Monday''),
      (''start_date'', Null), (''expiration_date'', Str ''2030-01-01T00:00:00Z''),
      (''created_by'', Str ''alice''), (''created_at'', Str ''2026-11-04T10:00:00''),
      (''_id'', Oid 1)]"

definition no_fields :: AnnouncementUpdate where
  "no_fields = \<lparr>upd_title = None, upd_message = None, upd_start_date = None,
                 upd_expiration_date = None\<rparr>"

definition sports_doc :: doc where
  "sports_doc =
     [(''title'', Str ''Sports day''), (''message'', Str ''Bring water''),
      (''start_date'', Str ''2027-05-01T00:00:00Z''),
      (''expiration_date'', Str ''2027-06-01T00:00:00Z''),
      (''created_by'', Str ''alice''), (''created_at'', Str ''2026-11-05T09:00:00''),
      (''_id'', Oid 2)]"

definition fair_doc :: doc where
  "fair_doc =
     [(''title'', Str ''Book fair''), (''message'', Str ''In the library''),
      (''start_date'', Null),
      (''expiration_date'', Str ''2020-01-01T00:00:00Z''),
      (''created_by'', Str ''alice''),
      (''_id'', Oid 3)]"

definition three_docs :: collection where
  "three_docs = [exams_doc, sports_doc, fair_doc]"

definition retitle :: AnnouncementUpdate where
  "retitle = \<lparr>upd_title = Some ''Finals'', upd_message = None, upd_start_date = None,
               upd_expiration_date = None\<rparr>"

definition greeting :: AnnouncementCreate where
  "greeting = \<lparr>title = ''Welcome'', message = ''Term starts'', start_date = Some ''2030-01-01'',
              expiration_date = ''2030-01-01T00:00:00Z''\<rparr>"

definition morning :: datetime where
  "morning = \<lparr>year = 2026, month = 11, day = 4, hour = 10, minute = 0, second = 0,
              microsecond = 0\<rparr>"

definition evening :: datetime where
  "evening = \<lparr>year = 2026, month = 11, day = 4, hour = 23, minute = 0, second = 0,
              microsecond = 0\<rparr>"

definition evening_doc :: doc where
  "evening_doc =
     [(''title'', Str ''Parents evening''), (''message'', Str ''Room 12''),
      (''start_date'', Null), (''expiration_date'', Str ''2026-11-04 23:00:00''),
      (''created_by'', Str ''alice''), (''created_at'', Str ''2026-11-03T08:00:00''),
      (''_id'', Oid 1)]"

definition spring_doc :: doc where
  "spring_doc =
     [(''title'', Str ''Spring concert''), (''message'', Str ''In the hall''),
      (''start_date'', Str ''2027-03-01T00:00:00''),
      (''expiration_date'', Str ''2027-03-20T18:30:00''),
      (''created_by'', Str ''alice''), (''created_at'', Str ''2026-11-02T08:00:00''),
      (''_id'', Oid 2)]"

definition autumn_doc :: doc where
  "autumn_doc =
     [(''title'', Str ''Autumn fair''), (''message'', Str ''In the yard''),
      (''start_date'', Null),
      (''expiration_date'', Str ''2026-10-01T12:00:00''),
      (''created_by'', Str ''alice''), (''created_at'', Str ''2026-09-01T08:00:00''),
      (''_id'', Oid 3)]"

definition spring_end :: datetime where
  "spring_end = \<lparr>year = 2027, month = 3, day = 20, hour = 18, minute = 30, second = 0,
                 microsecond = 0\<rparr>"

definition autumn_end :: datetime where
  "autumn_end = \<lparr>year = 2026, month = 10, day = 1, hour = 12, minute = 0, second = 0,
                 microsecond = 0\<rparr>"

section \<open>Properties\<close>

subsection \<open>Lookups by id\<close>

lemma find_one_Some_nonempty:
  "find_one c (Q_id i) = Some d \<Longrightarrow> d \<noteq> []"
  by (auto simp: find_one_def find_Some_iff)

lemma py_not_find_one: "py_not (find_one c (Q_id i)) \<longleftrightarrow> find_one c (Q_id i) = None"
  by (cases "find_one c (Q_id i)") (auto simp: py_not_def dest: find_one_Some_nonempty)

subsection \<open>Authentication\<close>

text \<open>
  What the authenticator answers, branch by branch. A credential string with a character
  outside ASCII never reaches the decoder; for the others the answer depends on what the
  decoder, the identity store and the password check say.
\<close>

lemma non_ascii_raises:
  "\<not> list_all is_ascii credentials \<Longrightarrow>
   get_current_user env credentials = Inl (Unhandled ValueError)"
  by (simp add: get_current_user_def b64decode_def)

lemma undecodable_is_401:
  assumes "list_all is_ascii credentials"
    and "a2b_base64 env credentials = Inl BinasciiError \<or>
         (\<exists>raw. a2b_base64 env credentials = Inr raw \<and> decode_utf8 env raw = Inl UnicodeDecodeError)"
  shows "get_current_user env credentials = Inl (HTTPException 401 ''Invalid token encoding'')"
  using assms by (auto simp: get_current_user_def b64decode_def)

lemma decoded_credentials:
  assumes "list_all is_ascii credentials"
    and "a2b_base64 env credentials = Inr raw" and "decode_utf8 env raw = Inr decoded"
  shows "get_current_user env credentials =
     (case split_colon decoded of
        None \<Rightarrow> Inl (HTTPException 401 ''Token format invalid'')
      | Some (username, password) \<Rightarrow>
          (case teachers_find_one env username of
             Inl e \<Rightarrow> Inl (HTTPException 500 ''Database error during authentication'')
           | Inr None \<Rightarrow> Inl (HTTPException 401 ''Invalid credentials'')
           | Inr (Some t) \<Rightarrow>
               if t = [] \<or>
                  \<not> verify_password env
                      (case map_of t ''password'' of None \<Rightarrow> Str [] | Some h \<Rightarrow> h) password
               then Inl (HTTPException 401 ''Invalid credentials'')
               else Inr t))"
  using assms by (simp add: get_current_user_def b64decode_def split: option.splits sum.splits)

lemma no_colon_is_401:
  assumes "list_all is_ascii credentials"
    and "a2b_base64 env credentials = Inr raw" and "decode_utf8 env raw = Inr decoded"
    and "CHR '':'' \<notin> set decoded"
  shows "get_current_user env credentials = Inl (HTTPException 401 ''Token format invalid'')"
  using assms by (simp add: decoded_credentials split_colon_def)

lemma split_colon_Some:
  "CHR '':'' \<notin> set u \<Longrightarrow> split_colon (u @ CHR '':'' # p) = Some (u, p)"
  by (induction u) (auto simp: split_colon_def)

lemma failed_lookup_is_500:
  assumes "list_all is_ascii credentials"
    and "a2b_base64 env credentials = Inr raw" and "decode_utf8 env raw = Inr decoded"
    and "split_colon decoded = Some (username, password)"
    and "teachers_find_one env username = Inl e"
  shows "get_current_user env credentials =
           Inl (HTTPException 500 ''Database error during authentication'')"
  using assms by (simp add: decoded_credentials)

lemma verify_password_no_hash: "verify_password env (Str []) password = False"
  by (simp add: verify_password_def)

lemma bad_credentials_are_401:
  assumes "list_all is_ascii credentials"
    and "a2b_base64 env credentials = Inr raw" and "decode_utf8 env raw = Inr decoded"
    and "split_colon decoded = Some (username, password)"
    and "teachers_find_one env username = Inr None \<or>
         (\<exists>t. teachers_find_one env username = Inr (Some t) \<and>
              (map_of t ''password'' = None \<or>
               (\<exists>h. map_of t ''password'' = Some h \<and> \<not> verify_password env h password)))"
  shows "get_current_user env credentials = Inl (HTTPException 401 ''Invalid credentials'')"
  using assms by (auto simp: decoded_credentials verify_password_no_hash)

lemma good_credentials_return_record:
  assumes "list_all is_ascii credentials"
    and "a2b_base64 env credentials = Inr raw" and "decode_utf8 env raw = Inr decoded"
    and "split_colon decoded = Some (username, password)"
    and "teachers_find_one env username = Inr (Some t)"
    and "map_of t ''password'' = Some h" and "verify_password env h password"
  shows "get_current_user env credentials = Inr t"
  using assms by (auto simp: decoded_credentials)

text \<open>
  C3. The claim: every bearer credential string ends in one of four failures (401 for a
  malformed encoding, 401 for a missing colon, 500 for a failed lookup, 401 for bad
  credentials) or in the identity record. The handler catches \<^verbatim>\<open>binascii.Error\<close> and
  \<^verbatim>\<open>UnicodeDecodeError\<close> only: a credential string with a character outside ASCII, here
  the two bytes of U+00E9, makes \<^verbatim>\<open>b64decode\<close> raise a plain \<^verbatim>\<open>ValueError\<close>, which
  leaves the handler uncaught, whatever the collaborators are.
\<close>

theorem non_ascii_credentials_unhandled:
  "get_current_user env [CHR 0xC3, CHR 0xA9] = Inl (Unhandled ValueError)"
  by (simp add: get_current_user_def b64decode_def is_ascii_def)

subsection \<open>Identifiers that do not parse\<close>

text \<open>
  C6. When the identifier is not a valid ObjectId (the constructor raises
  \<^verbatim>\<open>InvalidId\<close>), update and delete both answer 400 "Invalid announcement ID" and
  leave the collection as it was, whatever the body and the collection are; neither
  answers 404.
\<close>

theorem invalid_id_is_400:
  assumes "ObjectId env announcement_id = Inl InvalidId"
  shows "update_announcement env c announcement_id a u =
           (Inl (HTTPException 400 ''Invalid announcement ID''), c) \<and>
         delete_announcement env c announcement_id u =
           (Inl (HTTPException 400 ''Invalid announcement ID''), c) \<and>
         fst (update_announcement env c announcement_id a u) \<noteq>
           Inl (HTTPException 404 ''Announcement not found'') \<and>
         fst (delete_announcement env c announcement_id u) \<noteq>
           Inl (HTTPException 404 ''Announcement not found'')"
  using assms by (simp add: update_announcement_def delete_announcement_def)

theorem invalid_id_is_400_witness:
  "ObjectId test_env ''not-an-id'' = Inl InvalidId \<and>
   update_announcement test_env [exams_doc] ''not-an-id''
       \<lparr>upd_title = Some ''T'', upd_message = None, upd_start_date = None,
        upd_expiration_date = None\<rparr> alice =
     (Inl (HTTPException 400 ''Invalid announcement ID''), [exams_doc]) \<and>
   delete_announcement test_env [exams_doc] ''not-an-id'' alice =
     (Inl (HTTPException 400 ''Invalid announcement ID''), [exams_doc])"
proof -
  have h: "ObjectId test_env ''not-an-id'' = Inl InvalidId"
    by (simp add: test_env_def)
  show ?thesis
    using h invalid_id_is_400 [OF h] by simp
qed

subsection \<open>The order of the checks in update\<close>

text \<open>
  C10. In update the existence check comes before the date checks and the check for an
  empty body: a well-formed identifier that matches no document gives 404 "Announcement
  not found" whatever the body is, and each of the three 400 answers about the body is
  given only when the identifier parses and a document with it exists.
\<close>

theorem update_not_found_first:
  "(\<forall>obj_id. ObjectId env announcement_id = Inr obj_id \<and> find_one c (Q_id obj_id) = None \<longrightarrow>
      update_announcement env c announcement_id a u =
        (Inl (HTTPException 404 ''Announcement not found''), c)) \<and>
   (\<forall>detail. fst (update_announcement env c announcement_id a u) = Inl (HTTPException 400 detail) \<and>
      detail \<in> {''Invalid start_date format'', ''Invalid expiration_date format'',
                 ''No fields to update''} \<longrightarrow>
      (\<exists>obj_id d. ObjectId env announcement_id = Inr obj_id \<and> find_one c (Q_id obj_id) = Some d))"
proof (intro conjI allI impI)
  fix obj_id
  assume "ObjectId env announcement_id = Inr obj_id \<and> find_one c (Q_id obj_id) = None"
  then show "update_announcement env c announcement_id a u =
        (Inl (HTTPException 404 ''Announcement not found''), c)"
    by (simp add: update_announcement_def py_not_def)
next
  fix detail
  assume h: "fst (update_announcement env c announcement_id a u) = Inl (HTTPException 400 detail) \<and>
      detail \<in> {''Invalid start_date format'', ''Invalid expiration_date format'',
                 ''No fields to update''}"
  show "\<exists>obj_id d. ObjectId env announcement_id = Inr obj_id \<and> find_one c (Q_id obj_id) = Some d"
  proof (cases "ObjectId env announcement_id")
    case (Inl e)
    with h show ?thesis
      by (auto simp: update_announcement_def split: if_splits)
  next
    case (Inr obj_id)
    show ?thesis
    proof (cases "find_one c (Q_id obj_id)")
      case None
      with Inr h show ?thesis
        by (simp add: update_announcement_def py_not_def)
    next
      case (Some d)
      with Inr show ?thesis by simp
    qed
  qed
qed

theorem update_not_found_first_witness:
  "(ObjectId test_env ''65f0000000000000000000a2'' = Inr 2 \<and>
    find_one [exams_doc] (Q_id 2) = None \<and>
    update_announcement test_env [exams_doc] ''65f0000000000000000000a2'' no_fields alice =
      (Inl (HTTPException 404 ''Announcement not found''), [exams_doc])) \<and>
   (fst (update_announcement test_env [exams_doc] ''65f0000000000000000000a1'' no_fields alice) =
      Inl (HTTPException 400 ''No fields to update'') \<and>
    (\<exists>obj_id d. ObjectId test_env ''65f0000000000000000000a1'' = Inr obj_id \<and>
       find_one [exams_doc] (Q_id obj_id) = Some d))"
proof -
  have h1: "ObjectId test_env ''65f0000000000000000000a2'' = Inr 2 \<and>
            find_one [exams_doc] (Q_id 2) = None"
    by (simp add: test_env_def find_one_def exams_doc_def)
  have h2: "fst (update_announcement test_env [exams_doc] ''65f0000000000000000000a1'' no_fields alice) =
      Inl (HTTPException 400 ''No fields to update'')"
    by (simp add: update_announcement_def test_env_def find_one_def exams_doc_def
        py_not_def no_fields_def update_doc_def)
  from update_not_found_first [of test_env "''65f0000000000000000000a2''" "[exams_doc]" no_fields alice]
  have p1: "update_announcement test_env [exams_doc] ''65f0000000000000000000a2'' no_fields alice =
      (Inl (HTTPException 404 ''Announcement not found''), [exams_doc])"
    using h1 by blast
  from update_not_found_first [of test_env "''65f0000000000000000000a1''" "[exams_doc]" no_fields alice]
  have p2: "\<exists>obj_id d. ObjectId test_env ''65f0000000000000000000a1'' = Inr obj_id \<and>
       find_one [exams_doc] (Q_id obj_id) = Some d"
    using h2 by blast
  from h1 h2 p1 p2 show ?thesis by blast
qed

subsection \<open>An update without fields\<close>

text \<open>
  C8, as stated: every update whose body supplies no field answers 400 "No fields to
  update". It does not hold when the identifier matches no document: the answer is 404.
\<close>

theorem empty_update_unknown_id_is_404:
  "update_doc no_fields = [] \<and>
   update_announcement test_env [exams_doc] ''65f0000000000000000000a2'' no_fields alice =
     (Inl (HTTPException 404 ''Announcement not found''), [exams_doc]) \<and>
   fst (update_announcement test_env [exams_doc] ''65f0000000000000000000a2'' no_fields alice) \<noteq>
     Inl (HTTPException 400 ''No fields to update'')"
  by (simp add: update_announcement_def test_env_def find_one_def exams_doc_def
        py_not_def no_fields_def update_doc_def)

text \<open>
  C8, amended: when the identifier parses and a document with it exists, an update whose
  body supplies none of title, message, start_date and expiration_date answers 400
  "No fields to update" and leaves the collection as it was.
\<close>

theorem empty_update_is_400:
  assumes "ObjectId env announcement_id = Inr obj_id"
    and "find_one c (Q_id obj_id) = Some existing"
    and "upd_title a = None" and "upd_message a = None"
    and "upd_start_date a = None" and "upd_expiration_date a = None"
  shows "update_announcement env c announcement_id a u =
           (Inl (HTTPException 400 ''No fields to update''), c)"
  using assms find_one_Some_nonempty [OF assms(2)]
  by (simp add: update_announcement_def py_not_def update_doc_def)

theorem empty_update_is_400_witness:
  "ObjectId test_env ''65f0000000000000000000a1'' = Inr 1 \<and>
   find_one [exams_doc] (Q_id 1) = Some exams_doc \<and>
   update_announcement test_env [exams_doc] ''65f0000000000000000000a1'' no_fields alice =
     (Inl (HTTPException 400 ''No fields to update''), [exams_doc])"
proof -
  have h1: "ObjectId test_env ''65f0000000000000000000a1'' = Inr 1"
    by (simp add: test_env_def)
  have h2: "find_one [exams_doc] (Q_id 1) = Some exams_doc"
    by (simp add: find_one_def exams_doc_def)
  show ?thesis
    using h1 h2 empty_update_is_400 [OF h1 h2, of no_fields alice]
    by (simp add: no_fields_def)
qed

subsection \<open>An identity record without a username\<close>

text \<open>
  C9. Authentication finds the identity record by \<^verbatim>\<open>_id\<close>; create reads its
  \<^verbatim>\<open>username\<close> field. When authentication has succeeded with a record that has no
  such field, a create request whose dates pass validation raises \<^verbatim>\<open>KeyError\<close>,
  which nothing catches, and the collection is as it was.
\<close>

theorem create_without_username_raises:
  assumes "get_current_user env credentials = Inr current_user"
    and "map_of current_user ''username'' = None"
    and "case start_date a of None \<Rightarrow> True | Some s \<Rightarrow> s = [] \<or> validate_date env s"
    and "validate_date env (expiration_date a)"
  shows "create_announcement env c now new_id a current_user =
           (Inl (Unhandled (KeyError ''username'')), c)"
  using assms by (simp add: create_announcement_def split: option.splits)

theorem create_without_username_raises_witness:
  "get_current_user test_env ''Ym9iOmh1bnRlcjI='' = Inr bob \<and>
   map_of bob ''username'' = None \<and>
   validate_date test_env (expiration_date exams) \<and>
   create_announcement test_env [] ''2026-11-04T10:00:00'' 1 exams bob =
     (Inl (Unhandled (KeyError ''username'')), [])"
proof -
  have h1: "get_current_user test_env ''Ym9iOmh1bnRlcjI='' = Inr bob"
    by (simp add: get_current_user_def b64decode_def is_ascii_def test_env_def
        split_colon_def test_teachers_def verify_password_def bob_def)
  have h2: "map_of bob ''username'' = None"
    by (simp add: bob_def)
  have h3: "case start_date exams of None \<Rightarrow> True | Some s \<Rightarrow> s = [] \<or> validate_date test_env s"
    by (simp add: exams_def)
  have h4: "validate_date test_env (expiration_date exams)"
    by (simp add: exams_def validate_date_def replace_Z_def test_env_def)
  show ?thesis
    using h1 h2 h4 create_without_username_raises [OF h1 h2 h3 h4, of "[]" "''2026-11-04T10:00:00''" 1]
    by simp
qed

subsection \<open>What an update changes\<close>

lemma map_of_apply_set:
  "map_of (apply_set upd d) k =
     (case map_of (rev upd) k of None \<Rightarrow> map_of d k | Some v \<Rightarrow> Some v)"
  unfolding apply_set_def
proof (induction upd arbitrary: d)
  case Nil
  then show ?case by simp
next
  case (Cons p upd)
  obtain k' v' where p: "p = (k', v')" by (cases p)
  show ?case
    by (simp add: Cons.IH p update_conv' map_add_def split: option.splits)
qed

lemma map_of_update_doc:
  "map_of (rev (update_doc a)) k =
     (if k = ''title'' then map_option Str (upd_title a)
      else if k = ''message'' then map_option Str (upd_message a)
      else if k = ''start_date'' then map_option Str (upd_start_date a)
      else if k = ''expiration_date'' then map_option Str (upd_expiration_date a)
      else None)"
  by (simp add: update_doc_def map_add_def split: option.splits)

lemma matches_id_apply_set:
  "matches (Q_id i) (apply_set (update_doc a) d) = matches (Q_id i) d"
  by (simp add: map_of_apply_set map_of_update_doc)

lemma update_one_split:
  assumes "find_one c (Q_id i) = Some d"
  shows "\<exists>ys zs. c = ys @ d # zs \<and> (\<forall>y\<in>set ys. \<not> matches (Q_id i) y) \<and>
           update_one c i upd =
             (ys @ apply_set upd d # zs, if apply_set upd d = d then 0 else 1)"
  using assms
proof (induction c)
  case Nil
  then show ?case by (simp add: find_one_def)
next
  case (Cons x c)
  show ?case
  proof (cases "matches (Q_id i) x")
    case True
    with Cons.prems have "x = d" by (simp add: find_one_def)
    with True have "x # c = [] @ d # c \<and> (\<forall>y\<in>set []. \<not> matches (Q_id i) y) \<and>
           update_one (x # c) i upd =
             ([] @ apply_set upd d # c, if apply_set upd d = d then 0 else 1)"
      by simp
    then show ?thesis by blast
  next
    case False
    with Cons.prems have "find_one c (Q_id i) = Some d" by (simp add: find_one_def)
    from Cons.IH [OF this] obtain ys zs where
      h: "c = ys @ d # zs" "\<forall>y\<in>set ys. \<not> matches (Q_id i) y"
         "update_one c i upd = (ys @ apply_set upd d # zs, if apply_set upd d = d then 0 else 1)"
      by blast
    with False have "x # c = (x # ys) @ d # zs \<and> (\<forall>y\<in>set (x # ys). \<not> matches (Q_id i) y) \<and>
           update_one (x # c) i upd =
             ((x # ys) @ apply_set upd d # zs, if apply_set upd d = d then 0 else 1)"
      by simp
    then show ?thesis by blast
  qed
qed

lemma find_one_split:
  "\<forall>y\<in>set ys. \<not> matches q y \<Longrightarrow> matches q d \<Longrightarrow> find_one (ys @ d # zs) q = Some d"
  by (induction ys) (simp_all add: find_one_def)

lemma find_one_matches: "find_one c q = Some d \<Longrightarrow> matches q d"
  by (auto simp: find_one_def find_Some_iff)

text \<open>
  C4. A successful update rewrites one document, the one with the given id, and leaves
  the rest of the collection as it was. In the rewritten document each of title,
  message, start_date and expiration_date has the supplied value when the body supplies
  one and its prior value otherwise; every other field (\<^verbatim>\<open>_id\<close>, created_by,
  created_at among them) has its prior value. The record returned is that document with
  its id as a string.
\<close>

theorem update_changes_only_supplied_fields:
  assumes "update_announcement env c announcement_id a u = (Inr r, c')"
  shows "\<exists>obj_id old new ys zs.
           ObjectId env announcement_id = Inr obj_id \<and>
           find_one c (Q_id obj_id) = Some old \<and>
           find_one c' (Q_id obj_id) = Some new \<and>
           c = ys @ old # zs \<and> c' = ys @ new # zs \<and>
           map_of new ''title'' =
             (case upd_title a of None \<Rightarrow> map_of old ''title'' | Some t \<Rightarrow> Some (Str t)) \<and>
           map_of new ''message'' =
             (case upd_message a of None \<Rightarrow> map_of old ''message'' | Some m \<Rightarrow> Some (Str m)) \<and>
           map_of new ''start_date'' =
             (case upd_start_date a of None \<Rightarrow> map_of old ''start_date'' | Some s \<Rightarrow> Some (Str s)) \<and>
           map_of new ''expiration_date'' =
             (case upd_expiration_date a of None \<Rightarrow> map_of old ''expiration_date''
              | Some e \<Rightarrow> Some (Str e)) \<and>
           (\<forall>k. k \<notin> {''title'', ''message'', ''start_date'', ''expiration_date''} \<longrightarrow>
                map_of new k = map_of old k) \<and>
           r = AList.update ''_id'' (Str (oid_str env obj_id)) new"
proof -
  from assms obtain obj_id where oid: "ObjectId env announcement_id = Inr obj_id"
    by (cases "ObjectId env announcement_id")
       (auto simp: update_announcement_def split: if_splits)
  from assms oid obtain old where old: "find_one c (Q_id obj_id) = Some old"
    by (cases "find_one c (Q_id obj_id)")
       (auto simp: update_announcement_def py_not_def)
  define new where "new = apply_set (update_doc a) old"
  from update_one_split [OF old, of "update_doc a"] obtain ys zs where
    sp: "c = ys @ old # zs" "\<forall>y\<in>set ys. \<not> matches (Q_id obj_id) y"
        "update_one c obj_id (update_doc a) = (ys @ new # zs, if new = old then 0 else 1)"
    unfolding new_def by blast
  have m_old: "matches (Q_id obj_id) old"
    using old by (rule find_one_matches)
  then have m_new: "matches (Q_id obj_id) new"
    unfolding new_def by (simp only: matches_id_apply_set)
  have f_new: "find_one (ys @ new # zs) (Q_id obj_id) = Some new"
    using sp(2) m_new by (rule find_one_split)
  have nonempty: "\<not> py_not (find_one c (Q_id obj_id))"
    using old find_one_Some_nonempty [OF old] by (simp add: py_not_def)
  from m_new have id_new: "map_of new ''_id'' = Some (Oid obj_id)" by simp
  from assms have res: "c' = ys @ new # zs \<and> r = AList.update ''_id'' (Str (oid_str env obj_id)) new"
    unfolding update_announcement_def
    by (simp add: oid nonempty sp(3) f_new stringify_id_def id_new py_str_def split: if_splits)
  have fields: "\<And>k. map_of new k =
      (case map_of (rev (update_doc a)) k of None \<Rightarrow> map_of old k | Some v \<Rightarrow> Some v)"
    unfolding new_def by (rule map_of_apply_set)
  have t: "map_of new ''title'' =
             (case upd_title a of None \<Rightarrow> map_of old ''title'' | Some t \<Rightarrow> Some (Str t))"
    by (simp add: fields map_of_update_doc split: option.splits)
  have m: "map_of new ''message'' =
             (case upd_message a of None \<Rightarrow> map_of old ''message'' | Some m \<Rightarrow> Some (Str m))"
    by (simp add: fields map_of_update_doc split: option.splits)
  have s: "map_of new ''start_date'' =
             (case upd_start_date a of None \<Rightarrow> map_of old ''start_date'' | Some s \<Rightarrow> Some (Str s))"
    by (simp add: fields map_of_update_doc split: option.splits)
  have e: "map_of new ''expiration_date'' =
             (case upd_expiration_date a of None \<Rightarrow> map_of old ''expiration_date''
              | Some e \<Rightarrow> Some (Str e))"
    by (simp add: fields map_of_update_doc split: option.splits)
  have others: "\<forall>k. k \<notin> {''title'', ''message'', ''start_date'', ''expiration_date''} \<longrightarrow>
                map_of new k = map_of old k"
    by (simp add: fields map_of_update_doc)
  from res f_new have f_new': "find_one c' (Q_id obj_id) = Some new" by simp
  from oid old f_new' sp(1) res t m s e others show ?thesis by blast
qed

theorem update_changes_only_supplied_fields_witness:
  "\<exists>r c' new.
     update_announcement test_env three_docs ''65f0000000000000000000a1'' retitle alice =
       (Inr r, c') \<and>
     find_one c' (Q_id 1) = Some new \<and>
     c' = [new, sports_doc, fair_doc] \<and>
     map_of new ''title'' = Some (Str ''Finals'') \<and>
     map_of new ''message'' = map_of exams_doc ''message'' \<and>
     map_of new ''start_date'' = map_of exams_doc ''start_date'' \<and>
     map_of new ''expiration_date'' = map_of exams_doc ''expiration_date'' \<and>
     map_of new ''created_by'' = map_of exams_doc ''created_by'' \<and>
     map_of new ''created_at'' = map_of exams_doc ''created_at'' \<and>
     map_of new ''_id'' = map_of exams_doc ''_id'' \<and>
     map_of r ''_id'' = Some (Str ''65f0000000000000000000a1'')"
proof -
  obtain r c' where
    h: "update_announcement test_env three_docs ''65f0000000000000000000a1'' retitle alice =
          (Inr r, c')"
    by (simp add: update_announcement_def test_env_def three_docs_def exams_doc_def
        find_one_def py_not_def retitle_def update_doc_def apply_set_def stringify_id_def)
  from update_changes_only_supplied_fields [OF h] obtain obj_id old new ys zs where
    u: "ObjectId test_env ''65f0000000000000000000a1'' = Inr obj_id"
       "find_one three_docs (Q_id obj_id) = Some old"
       "find_one c' (Q_id obj_id) = Some new"
       "three_docs = ys @ old # zs" "c' = ys @ new # zs"
       "map_of new ''title'' =
          (case upd_title retitle of None \<Rightarrow> map_of old ''title'' | Some t \<Rightarrow> Some (Str t))"
       "map_of new ''message'' =
          (case upd_message retitle of None \<Rightarrow> map_of old ''message'' | Some m \<Rightarrow> Some (Str m))"
       "map_of new ''start_date'' =
          (case upd_start_date retitle of None \<Rightarrow> map_of old ''start_date''
           | Some s \<Rightarrow> Some (Str s))"
       "map_of new ''expiration_date'' =
          (case upd_expiration_date retitle of None \<Rightarrow> map_of old ''expiration_date''
           | Some e \<Rightarrow> Some (Str e))"
       "\<forall>k. k \<notin> {''title'', ''message'', ''start_date'', ''expiration_date''} \<longrightarrow>
            map_of new k = map_of old k"
       "r = AList.update ''_id'' (Str (oid_str test_env obj_id)) new"
    by blast
  from u(1) have oid: "obj_id = 1" by (simp add: test_env_def)
  from u(2) have old: "old = exams_doc"
    by (simp add: oid find_one_def three_docs_def exams_doc_def)
  have "find_one three_docs (Q_id 1) = Some exams_doc"
    by (simp add: find_one_def three_docs_def exams_doc_def)
  have "ys = [] \<and> zs = [sports_doc, fair_doc]"
  proof (cases ys)
    case Nil
    with u(4) show ?thesis by (simp add: three_docs_def)
  next
    case (Cons y ys')
    with u(4) have "y = exams_doc" "old \<in> set [sports_doc, fair_doc]"
      by (auto simp: three_docs_def Cons_eq_append_conv append_eq_Cons_conv)
    with old show ?thesis
      by (auto simp: exams_doc_def sports_doc_def fair_doc_def)
  qed
  with u(5) have c': "c' = [new, sports_doc, fair_doc]" by simp
  have others: "map_of new ''created_by'' = map_of old ''created_by''"
    "map_of new ''created_at'' = map_of old ''created_at''"
    "map_of new ''_id'' = map_of old ''_id''"
    using u(10) by simp_all
  have rid: "map_of r ''_id'' = Some (Str ''65f0000000000000000000a1'')"
    by (simp add: u(11) oid update_conv' test_env_def)
  show ?thesis
    apply (rule exI [of _ r], rule exI [of _ c'], rule exI [of _ new])
    using h u(3) c' u(6-9) others rid
    by (simp add: oid old retitle_def)
qed

subsection \<open>An update that changes nothing\<close>

text \<open>
  An update whose every supplied field has the value the document already holds leaves
  the document as it is, so the store counts no modification and the handler answers
  500.
\<close>

lemma apply_set_same:
  "\<forall>(k, v)\<in>set upd. map_of d k = Some v \<Longrightarrow> apply_set upd d = d"
  unfolding apply_set_def
  by (induction upd) (auto simp: update_triv)

lemma update_with_current_values_is_500:
  assumes "ObjectId env announcement_id = Inr obj_id"
    and "find_one c (Q_id obj_id) = Some existing"
    and "case upd_start_date a of None \<Rightarrow> True | Some s \<Rightarrow> validate_date env s"
    and "case upd_expiration_date a of None \<Rightarrow> True | Some s \<Rightarrow> validate_date env s"
    and "update_doc a \<noteq> []"
    and "\<forall>(k, v)\<in>set (update_doc a). map_of existing k = Some v"
  shows "update_announcement env c announcement_id a u =
           (Inl (HTTPException 500 ''Failed to update announcement''), c)"
proof -
  from update_one_split [OF assms(2), of "update_doc a"] obtain ys zs where
    sp: "c = ys @ existing # zs"
        "update_one c obj_id (update_doc a) =
           (ys @ apply_set (update_doc a) existing # zs,
            if apply_set (update_doc a) existing = existing then 0 else 1)"
    by blast
  have same: "apply_set (update_doc a) existing = existing"
    using assms(6) by (rule apply_set_same)
  have u1: "update_one c obj_id (update_doc a) = (c, 0)"
    using sp by (simp add: same)
  have ne: "\<not> py_not (find_one c (Q_id obj_id))"
    using assms(2) find_one_Some_nonempty [OF assms(2)] by (simp add: py_not_def)
  show ?thesis
    using assms(1,3,4,5) ne u1
    by (simp add: update_announcement_def split: option.splits)
qed

text \<open>
  C5. The claim: an update that sets a field to the value it already has succeeds and
  returns the record. The handler reads \<^verbatim>\<open>modified_count\<close>, which is 0 for such an
  update: setting the title "Exams" on the announcement that is already titled "Exams"
  answers 500 "Failed to update announcement".
\<close>

theorem update_same_title_fails:
  "find_one [exams_doc] (Q_id 1) = Some exams_doc \<and>
   map_of exams_doc ''title'' = Some (Str ''Exams'') \<and>
   update_announcement test_env [exams_doc] ''65f0000000000000000000a1''
       \<lparr>upd_title = Some ''Exams'', upd_message = None, upd_start_date = None,
        upd_expiration_date = None\<rparr> alice =
     (Inl (HTTPException 500 ''Failed to update announcement''), [exams_doc])"
  by (simp add: update_announcement_def test_env_def find_one_def exams_doc_def
        py_not_def update_doc_def apply_set_def)

subsection \<open>The shape of stored documents\<close>

text \<open>
  The listings below are stated for collections in which every document has an
  \<^verbatim>\<open>_id\<close> and a created_at that is absent or a string. The empty collection is one,
  and the three handlers that write keep it so: create adds a document with both,
  update touches neither field, delete only removes.
\<close>

lemma created_key_apply_set:
  "created_key (apply_set (update_doc a) d) = created_key d"
  by (simp add: created_key_def map_of_apply_set map_of_update_doc)

lemma id_apply_set:
  "map_of (apply_set (update_doc a) d) ''_id'' = map_of d ''_id''"
  by (simp add: map_of_apply_set map_of_update_doc)

lemma set_update_one:
  "set (fst (update_one c i upd)) \<subseteq> set c \<union> apply_set upd ` set c"
  by (induction c) auto

lemma set_delete_one: "set (fst (delete_one c i)) \<subseteq> set c"
  by (induction c) auto

lemma create_keeps_shape:
  assumes "\<forall>d\<in>set c. map_of d ''_id'' \<noteq> None \<and> is_Str (created_key d)"
  shows "\<forall>d\<in>set (snd (create_announcement env c now new_id a u)).
           map_of d ''_id'' \<noteq> None \<and> is_Str (created_key d)"
  using assms
  by (auto simp: create_announcement_def insert_one_def Let_def announcement_doc_def
      created_key_def update_conv' split: option.splits sum.splits if_splits)

lemma snd_update_announcement:
  "snd (update_announcement env c announcement_id a u) = c \<or>
   (\<exists>i. snd (update_announcement env c announcement_id a u) = fst (update_one c i (update_doc a)))"
  by (auto simp: update_announcement_def case_prod_beta split: sum.splits if_splits option.splits)

lemma snd_delete_announcement:
  "snd (delete_announcement env c announcement_id u) = c \<or>
   (\<exists>i. snd (delete_announcement env c announcement_id u) = fst (delete_one c i))"
  by (auto simp: delete_announcement_def case_prod_beta split: sum.splits if_splits)

lemma update_keeps_shape:
  assumes "\<forall>d\<in>set c. map_of d ''_id'' \<noteq> None \<and> is_Str (created_key d)"
  shows "\<forall>d\<in>set (snd (update_announcement env c announcement_id a u)).
           map_of d ''_id'' \<noteq> None \<and> is_Str (created_key d)"
proof -
  have u: "\<forall>d\<in>set (fst (update_one c i (update_doc a))).
             map_of d ''_id'' \<noteq> None \<and> is_Str (created_key d)" for i
    using assms set_update_one [of c i "update_doc a"]
    by (auto simp: created_key_apply_set id_apply_set)
  from snd_update_announcement [of env c announcement_id a u] show ?thesis
    using assms u by auto
qed

lemma delete_keeps_shape:
  assumes "\<forall>d\<in>set c. map_of d ''_id'' \<noteq> None \<and> is_Str (created_key d)"
  shows "\<forall>d\<in>set (snd (delete_announcement env c announcement_id u)).
           map_of d ''_id'' \<noteq> None \<and> is_Str (created_key d)"
proof -
  have u: "\<forall>d\<in>set (fst (delete_one c i)).
             map_of d ''_id'' \<noteq> None \<and> is_Str (created_key d)" for i
    using assms set_delete_one [of c i] by auto
  from snd_delete_announcement [of env c announcement_id u] show ?thesis
    using assms u by auto
qed

subsection \<open>Timestamps as strings\<close>

text \<open>
  Strings written by \<open>isoformat_sep\<close> with one separator are ordered as the times
  they denote: every field has a fixed width, so the strings are compared field by
  field, and a string without a fraction is a proper prefix of one with a fraction.
\<close>

lemma length_digits [simp]: "length (digits w n) = w"
  by (induction w arbitrary: n) simp_all

lemma less_append_same_length:
  fixes xs ys :: "'a::linorder list"
  shows "length xs = length ys \<Longrightarrow> xs @ us < ys @ vs \<longleftrightarrow> xs < ys \<or> xs = ys \<and> us < vs"
  by (induction xs ys rule: list_induct2) auto

lemma digit_char_less:
  "a < 10 \<Longrightarrow> b < 10 \<Longrightarrow> (char_of (48 + a :: nat) < char_of (48 + b :: nat)) = (a < b)"
  by (simp add: less_char_def)

lemma digit_char_eq:
  "a < 10 \<Longrightarrow> b < 10 \<Longrightarrow> (char_of (48 + a :: nat) = char_of (48 + b :: nat)) = (a = b)"
proof -
  assume "a < 10" "b < 10"
  then have "of_char (char_of (48 + a)) = 48 + a" "of_char (char_of (48 + b)) = 48 + b"
    by simp_all
  then show ?thesis by (metis add_left_cancel)
qed

lemma div_mod_eq10: "(n::nat) div 10 = m div 10 \<and> n mod 10 = m mod 10 \<longleftrightarrow> n = m"
  by (metis div_mult_mod_eq)

lemma lex10:
  fixes x y a b :: nat
  assumes "a < 10" "b < 10"
  shows "(x < y \<or> x = y \<and> a < b) \<longleftrightarrow> 10 * x + a < 10 * y + b"
  using assms by arith

lemma div_mod_less10:
  "((n::nat) div 10 < m div 10 \<or> n div 10 = m div 10 \<and> n mod 10 < m mod 10) \<longleftrightarrow> n < m"
  using lex10 [of "n mod 10" "m mod 10" "n div 10" "m div 10"] by simp

lemma digits_eq_iff:
  "n < 10 ^ w \<Longrightarrow> m < 10 ^ w \<Longrightarrow> digits w n = digits w m \<longleftrightarrow> n = m"
proof (induction w arbitrary: n m)
  case 0
  then show ?case by simp
next
  case (Suc w)
  then have b: "n div 10 < 10 ^ w" "m div 10 < 10 ^ w" by simp_all
  have "digits (Suc w) n = digits (Suc w) m \<longleftrightarrow>
        digits w (n div 10) = digits w (m div 10) \<and> n mod 10 = m mod 10"
    by (simp add: digit_char_eq)
  also have "\<dots> \<longleftrightarrow> n div 10 = m div 10 \<and> n mod 10 = m mod 10"
    by (simp add: Suc.IH [OF b])
  also have "\<dots> \<longleftrightarrow> n = m" by (rule div_mod_eq10)
  finally show ?case .
qed

lemma digits_less_iff:
  "n < 10 ^ w \<Longrightarrow> m < 10 ^ w \<Longrightarrow> digits w n < digits w m \<longleftrightarrow> n < m"
proof (induction w arbitrary: n m)
  case 0
  then show ?case by simp
next
  case (Suc w)
  then have b: "n div 10 < 10 ^ w" "m div 10 < 10 ^ w" by simp_all
  have "digits (Suc w) n < digits (Suc w) m \<longleftrightarrow>
        digits w (n div 10) < digits w (m div 10) \<or>
        digits w (n div 10) = digits w (m div 10) \<and> n mod 10 < m mod 10"
    by (simp add: less_append_same_length digit_char_less)
  also have "\<dots> \<longleftrightarrow> n div 10 < m div 10 \<or> n div 10 = m div 10 \<and> n mod 10 < m mod 10"
    by (simp add: Suc.IH [OF b] digits_eq_iff [OF b])
  also have "\<dots> \<longleftrightarrow> n < m" by (rule div_mod_less10)
  finally show ?case .
qed

lemma segment_less:
  "n < 10 ^ w \<Longrightarrow> m < 10 ^ w \<Longrightarrow>
   digits w n @ us < digits w m @ vs \<longleftrightarrow> n < m \<or> n = m \<and> us < vs"
  by (simp add: less_append_same_length digits_less_iff digits_eq_iff)

lemma fraction_less:
  assumes "a < 10 ^ 6" "b < 10 ^ 6"
  shows "(if a = 0 then [] else CHR ''.'' # digits 6 a) < (if b = 0 then [] else CHR ''.'' # digits 6 b)
         \<longleftrightarrow> a < b"
  using assms by (simp add: digits_less_iff)

theorem isoformat_sep_less_iff:
  assumes "valid_datetime a" and "valid_datetime b"
  shows "isoformat_sep sep a < isoformat_sep sep b \<longleftrightarrow> before a b"
proof -
  from assms(1) have a:
    "year a < 10 ^ 4" "month a < 10 ^ 2" "day a < 10 ^ 2" "hour a < 10 ^ 2"
    "minute a < 10 ^ 2" "second a < 10 ^ 2" "microsecond a < 10 ^ 6"
    by (simp_all add: valid_datetime_def)
  from assms(2) have b:
    "year b < 10 ^ 4" "month b < 10 ^ 2" "day b < 10 ^ 2" "hour b < 10 ^ 2"
    "minute b < 10 ^ 2" "second b < 10 ^ 2" "microsecond b < 10 ^ 6"
    by (simp_all add: valid_datetime_def)
  let ?f = "\<lambda>d. if microsecond d = 0 then [] else CHR ''.'' # digits 6 (microsecond d)"
  let ?s = "\<lambda>d. digits 2 (second d) @ ?f d"
  let ?mi = "\<lambda>d. digits 2 (minute d) @ CHR '':'' # ?s d"
  let ?h = "\<lambda>d. digits 2 (hour d) @ CHR '':'' # ?mi d"
  let ?d = "\<lambda>d. digits 2 (day d) @ sep # ?h d"
  let ?mo = "\<lambda>d. digits 2 (month d) @ CHR ''-'' # ?d d"
  let ?y = "\<lambda>d. digits 4 (year d) @ CHR ''-'' # ?mo d"
  have f: "?f a < ?f b \<longleftrightarrow> microsecond a < microsecond b"
    using a(7) b(7) by (rule fraction_less)
  have s: "?s a < ?s b \<longleftrightarrow> second a < second b \<or> second a = second b \<and> ?f a < ?f b"
    using a(6) b(6) by (rule segment_less)
  have mi: "?mi a < ?mi b \<longleftrightarrow> minute a < minute b \<or> minute a = minute b \<and> ?s a < ?s b"
    by (simp only: segment_less [OF a(5) b(5)] Cons_less_Cons simp_thms less_irrefl)
  have h: "?h a < ?h b \<longleftrightarrow> hour a < hour b \<or> hour a = hour b \<and> ?mi a < ?mi b"
    by (simp only: segment_less [OF a(4) b(4)] Cons_less_Cons simp_thms less_irrefl)
  have d: "?d a < ?d b \<longleftrightarrow> day a < day b \<or> day a = day b \<and> ?h a < ?h b"
    by (simp only: segment_less [OF a(3) b(3)] Cons_less_Cons simp_thms less_irrefl)
  have mo: "?mo a < ?mo b \<longleftrightarrow> month a < month b \<or> month a = month b \<and> ?d a < ?d b"
    by (simp only: segment_less [OF a(2) b(2)] Cons_less_Cons simp_thms less_irrefl)
  have y: "?y a < ?y b \<longleftrightarrow> year a < year b \<or> year a = year b \<and> ?mo a < ?mo b"
    by (simp only: segment_less [OF a(1) b(1)] Cons_less_Cons simp_thms less_irrefl)
  have shape: "\<And>x. isoformat_sep sep x = ?y x"
    by (simp add: isoformat_sep_def)
  show ?thesis
    unfolding shape before_def by (simp only: y mo d h mi s f)
qed

subsection \<open>The listings\<close>

lemma stringify_id_fields:
  "stringify_id env d = Inr r \<Longrightarrow> k \<noteq> ''_id'' \<Longrightarrow> map_of r k = map_of d k"
  by (auto simp: stringify_id_def update_conv' split: option.splits)

lemma stringify_id_created_key:
  "stringify_id env d = Inr r \<Longrightarrow> created_key r = created_key d"
  by (simp add: created_key_def stringify_id_fields)

lemma stringify_ids_all2:
  "stringify_ids env ds = Inr rs \<Longrightarrow> list_all2 (\<lambda>d r. stringify_id env d = Inr r) ds rs"
  by (induction ds arbitrary: rs) (auto split: sum.splits)

lemma stringify_ids_total:
  "\<forall>d\<in>set ds. map_of d ''_id'' \<noteq> None \<Longrightarrow> \<exists>rs. stringify_ids env ds = Inr rs"
proof (induction ds)
  case Nil
  then show ?case by simp
next
  case (Cons d ds)
  then obtain v rs where "map_of d ''_id'' = Some v" "stringify_ids env ds = Inr rs"
    by auto
  then show ?case by (simp add: stringify_id_def)
qed

lemma all2_right: "list_all2 P ds rs \<Longrightarrow> r \<in> set rs \<Longrightarrow> \<exists>d\<in>set ds. P d r"
  by (induction rule: list_all2_induct) auto

lemma all2_left: "list_all2 P ds rs \<Longrightarrow> d \<in> set ds \<Longrightarrow> \<exists>r\<in>set rs. P d r"
  by (induction rule: list_all2_induct) auto

lemma all2_keys:
  assumes "list_all2 (\<lambda>d r. stringify_id env d = Inr r) ds rs"
    and "\<forall>d\<in>set ds. is_Str (created_key d)"
  shows "\<forall>r\<in>set rs. is_Str (created_key r)"
proof
  fix r assume "r \<in> set rs"
  with assms(1) obtain d where "d \<in> set ds" "stringify_id env d = Inr r"
    by (blast dest: all2_right)
  with assms(2) show "is_Str (created_key r)"
    by (simp add: stringify_id_created_key)
qed

lemma sort_short: "length xs < 2 \<Longrightarrow> rev (sort_key f (rev xs)) = xs"
proof (cases xs)
  case Nil
  then show ?thesis by simp
next
  case (Cons x ys)
  assume "length xs < 2"
  with Cons have "ys = []" by simp
  with Cons show ?thesis by simp
qed

lemma sort_newest_first_strings:
  assumes "\<forall>d\<in>set xs. is_Str (created_key d)"
  shows "sort_newest_first xs = Inr (rev (sort_key (\<lambda>d. str_of (created_key d)) (rev xs)))"
  using assms by (simp add: sort_newest_first_def list_all_iff sort_short)

lemma newest_first_sorted:
  "sorted_wrt (\<lambda>x y. f y \<le> f x) (rev (sort_key f xs))"
proof -
  have "sorted (map f (sort_key f xs))" by (rule sorted_sort_key)
  then have "sorted_wrt (\<lambda>x y. f x \<le> f y) (sort_key f xs)"
    by (simp add: sorted_map)
  then show ?thesis by (simp add: sorted_wrt_rev)
qed

lemma missing_last:
  assumes sorted: "sorted_wrt (\<lambda>x y. str_of (created_key y) \<le> str_of (created_key x)) rs"
    and keys: "\<forall>r\<in>set rs. is_Str (created_key r)"
    and ij: "i < j" "j < length rs"
    and missing: "map_of (rs ! i) ''created_at'' = None"
  shows "created_key (rs ! j) = Str []"
proof -
  from missing have "created_key (rs ! i) = Str []" by (simp add: created_key_def)
  moreover from sorted ij
  have "str_of (created_key (rs ! j)) \<le> str_of (created_key (rs ! i))"
    by (simp add: sorted_wrt_iff_nth_less)
  ultimately have e: "str_of (created_key (rs ! j)) = []" by simp
  from keys ij have "is_Str (created_key (rs ! j))" by simp
  with e show ?thesis by (cases "created_key (rs ! j)") simp_all
qed

text \<open>The sample collection has ids and string keys.\<close>

lemma three_docs_ids: "\<forall>d\<in>set three_docs. map_of d ''_id'' \<noteq> None"
  by (simp add: three_docs_def exams_doc_def sports_doc_def fair_doc_def)

lemma three_docs_keys: "\<forall>d\<in>set three_docs. is_Str (created_key d)"
  by (simp add: three_docs_def exams_doc_def sports_doc_def fair_doc_def created_key_def)

text \<open>What a listing returns, for either query.\<close>

lemma listing:
  assumes ids: "\<forall>d\<in>set c. map_of d ''_id'' \<noteq> None"
    and keys: "\<forall>d\<in>set c. is_Str (created_key d)"
  shows "\<exists>rs res. stringify_ids env (coll_find c q) = Inr rs \<and>
           list_all2 (\<lambda>d r. stringify_id env d = Inr r) (coll_find c q) rs \<and>
           sort_newest_first rs = Inr res \<and> set res = set rs \<and> length res = length rs \<and>
           (\<forall>r\<in>set res. is_Str (created_key r)) \<and>
           sorted_wrt (\<lambda>x y. str_of (created_key y) \<le> str_of (created_key x)) res"
proof -
  have sub: "set (coll_find c q) \<subseteq> set c" by (auto simp: coll_find_def)
  with ids have "\<forall>d\<in>set (coll_find c q). map_of d ''_id'' \<noteq> None" by blast
  from stringify_ids_total [OF this] obtain rs where rs: "stringify_ids env (coll_find c q) = Inr rs"
    by blast
  then have all2: "list_all2 (\<lambda>d r. stringify_id env d = Inr r) (coll_find c q) rs"
    by (rule stringify_ids_all2)
  from sub keys have "\<forall>d\<in>set (coll_find c q). is_Str (created_key d)" by blast
  with all2 have k: "\<forall>r\<in>set rs. is_Str (created_key r)" by (rule all2_keys)
  define res where "res = rev (sort_key (\<lambda>d. str_of (created_key d)) (rev rs))"
  from k have s: "sort_newest_first rs = Inr res"
    unfolding res_def by (rule sort_newest_first_strings)
  have "set res = set rs" "length res = length rs" by (simp_all add: res_def)
  moreover have "sorted_wrt (\<lambda>x y. str_of (created_key y) \<le> str_of (created_key x)) res"
    unfolding res_def by (rule newest_first_sorted)
  ultimately show ?thesis using rs all2 s k by auto
qed

text \<open>
  C7. On a collection whose documents have an \<^verbatim>\<open>_id\<close> and whose created_at, where
  present, is a string, both listings return, and what they return is in descending
  order of created_at, a missing created_at counting as the empty string: every record
  that comes after one without created_at has the empty key too, so such records are
  last.
\<close>

theorem listings_newest_first:
  assumes "\<forall>d\<in>set c. map_of d ''_id'' \<noteq> None"
    and "\<forall>d\<in>set c. is_Str (created_key d)"
  shows "\<exists>active everything.
           get_announcements env c now = Inr active \<and>
           get_all_announcements env c u = Inr everything \<and>
           sorted_wrt (\<lambda>x y. str_of (created_key y) \<le> str_of (created_key x)) active \<and>
           sorted_wrt (\<lambda>x y. str_of (created_key y) \<le> str_of (created_key x)) everything \<and>
           (\<forall>i j. i < j \<and> j < length active \<and> map_of (active ! i) ''created_at'' = None \<longrightarrow>
              created_key (active ! j) = Str []) \<and>
           (\<forall>i j. i < j \<and> j < length everything \<and> map_of (everything ! i) ''created_at'' = None \<longrightarrow>
              created_key (everything ! j) = Str [])"
proof -
  from listing [OF assms, of env "Q_gt ''expiration_date'' now"] obtain rs1 active where
    a: "stringify_ids env (coll_find c (Q_gt ''expiration_date'' now)) = Inr rs1"
       "sort_newest_first rs1 = Inr active"
       "\<forall>r\<in>set active. is_Str (created_key r)"
       "sorted_wrt (\<lambda>x y. str_of (created_key y) \<le> str_of (created_key x)) active"
    by blast
  from listing [OF assms, of env Q_all] obtain rs2 everything where
    e: "stringify_ids env (coll_find c Q_all) = Inr rs2"
       "sort_newest_first rs2 = Inr everything"
       "\<forall>r\<in>set everything. is_Str (created_key r)"
       "sorted_wrt (\<lambda>x y. str_of (created_key y) \<le> str_of (created_key x)) everything"
    by blast
  have g1: "get_announcements env c now = Inr active"
    by (simp add: get_announcements_def a(1,2))
  have g2: "get_all_announcements env c u = Inr everything"
    by (simp add: get_all_announcements_def e(1,2))
  have l1: "\<forall>i j. i < j \<and> j < length active \<and> map_of (active ! i) ''created_at'' = None \<longrightarrow>
              created_key (active ! j) = Str []"
    using missing_last [OF a(4) a(3)] by blast
  have l2: "\<forall>i j. i < j \<and> j < length everything \<and> map_of (everything ! i) ''created_at'' = None \<longrightarrow>
              created_key (everything ! j) = Str []"
    using missing_last [OF e(4) e(3)] by blast
  from g1 g2 a(4) e(4) l1 l2 show ?thesis by blast
qed

theorem listings_newest_first_witness:
  "\<exists>active everything.
     get_announcements test_env three_docs ''2026-11-06T00:00:00'' = Inr active \<and>
     get_all_announcements test_env three_docs alice = Inr everything \<and>
     map created_key active = [Str ''2026-11-05T09:00:00'', Str ''2026-11-04T10:00:00''] \<and>
     map created_key everything =
       [Str ''2026-11-05T09:00:00'', Str ''2026-11-04T10:00:00'', Str []] \<and>
     sorted_wrt (\<lambda>x y. str_of (created_key y) \<le> str_of (created_key x)) active \<and>
     sorted_wrt (\<lambda>x y. str_of (created_key y) \<le> str_of (created_key x)) everything"
proof -
  from listings_newest_first [OF three_docs_ids three_docs_keys,
      of test_env "''2026-11-06T00:00:00''" alice]
  obtain active everything where
    h: "get_announcements test_env three_docs ''2026-11-06T00:00:00'' = Inr active"
       "get_all_announcements test_env three_docs alice = Inr everything"
       "sorted_wrt (\<lambda>x y. str_of (created_key y) \<le> str_of (created_key x)) active"
       "sorted_wrt (\<lambda>x y. str_of (created_key y) \<le> str_of (created_key x)) everything"
    by blast
  have a: "map created_key active = [Str ''2026-11-05T09:00:00'', Str ''2026-11-04T10:00:00'']"
    using h(1)
    by (auto simp: get_announcements_def coll_find_def three_docs_def exams_doc_def sports_doc_def
        fair_doc_def stringify_id_def sort_newest_first_def created_key_def)
  have e: "map created_key everything =
       [Str ''2026-11-05T09:00:00'', Str ''2026-11-04T10:00:00'', Str []]"
    using h(2)
    by (auto simp: get_all_announcements_def coll_find_def three_docs_def exams_doc_def sports_doc_def
        fair_doc_def stringify_id_def sort_newest_first_def created_key_def)
  show ?thesis
    by (rule exI [of _ active], rule exI [of _ everything]) (simp add: h a e)
qed

text \<open>
  The active listing, for any string \<open>now\<close>: a stored document is returned exactly when
  its expiration_date is a string strictly greater than \<open>now\<close>.
\<close>

lemma active_listing:
  assumes "\<forall>d\<in>set c. map_of d ''_id'' \<noteq> None"
    and "\<forall>d\<in>set c. is_Str (created_key d)"
  shows "\<exists>res. get_announcements env c now = Inr res \<and>
           (\<forall>r\<in>set res. \<exists>d\<in>set c. stringify_id env d = Inr r) \<and>
           (\<forall>d\<in>set c. \<forall>r. stringify_id env d = Inr r \<longrightarrow>
              (r \<in> set res \<longleftrightarrow>
                 (\<exists>e. map_of d ''expiration_date'' = Some (Str e) \<and> now < e))) \<and>
           (\<forall>d\<in>set c. \<forall>r s e. stringify_id env d = Inr r \<and>
              map_of d ''start_date'' = Some (Str s) \<and> now < s \<and>
              map_of d ''expiration_date'' = Some (Str e) \<and> now < e \<longrightarrow> r \<in> set res)"
proof -
  let ?q = "Q_gt ''expiration_date'' now"
  from listing [OF assms, of env ?q] obtain rs res where
    a: "stringify_ids env (coll_find c ?q) = Inr rs"
       "list_all2 (\<lambda>d r. stringify_id env d = Inr r) (coll_find c ?q) rs"
       "sort_newest_first rs = Inr res" "set res = set rs"
    by blast
  have g: "get_announcements env c now = Inr res"
    by (simp add: get_announcements_def a(1,3))
  have m: "\<And>d. matches ?q d \<longleftrightarrow> (\<exists>e. map_of d ''expiration_date'' = Some (Str e) \<and> now < e)"
    by (auto split: option.splits bval.splits)
  have from_store: "\<And>r. r \<in> set res \<Longrightarrow> \<exists>d\<in>set c. matches ?q d \<and> stringify_id env d = Inr r"
  proof -
    fix r assume "r \<in> set res"
    with a(4) have "r \<in> set rs" by simp
    with a(2) obtain d where "d \<in> set (coll_find c ?q)" "stringify_id env d = Inr r"
      by (blast dest: all2_right)
    then show "\<exists>d\<in>set c. matches ?q d \<and> stringify_id env d = Inr r"
      by (auto simp: coll_find_def)
  qed
  have to_res: "\<And>d r. d \<in> set c \<Longrightarrow> matches ?q d \<Longrightarrow> stringify_id env d = Inr r \<Longrightarrow> r \<in> set res"
  proof -
    fix d r assume "d \<in> set c" "matches ?q d" and s: "stringify_id env d = Inr r"
    then have "d \<in> set (coll_find c ?q)" by (simp add: coll_find_def)
    with a(2) obtain r' where "r' \<in> set rs" "stringify_id env d = Inr r'"
      by (blast dest: all2_left)
    with s a(4) show "r \<in> set res" by simp
  qed
  have p1: "\<forall>r\<in>set res. \<exists>d\<in>set c. stringify_id env d = Inr r"
    using from_store by blast
  have p2: "\<forall>d\<in>set c. \<forall>r. stringify_id env d = Inr r \<longrightarrow>
              (r \<in> set res \<longleftrightarrow> (\<exists>e. map_of d ''expiration_date'' = Some (Str e) \<and> now < e))"
  proof (intro ballI allI impI iffI)
    fix d r assume d: "d \<in> set c" and s: "stringify_id env d = Inr r" and "r \<in> set res"
    from from_store [OF this(3)] obtain d0 where
      d0: "matches ?q d0" "stringify_id env d0 = Inr r" by blast
    have "map_of d ''expiration_date'' = map_of r ''expiration_date''"
      using stringify_id_fields [OF s, of "''expiration_date''"] by simp
    also have "\<dots> = map_of d0 ''expiration_date''"
      using stringify_id_fields [OF d0(2), of "''expiration_date''"] by simp
    finally show "\<exists>e. map_of d ''expiration_date'' = Some (Str e) \<and> now < e"
      using d0(1) by (simp only: m)
  next
    fix d r assume "d \<in> set c" "stringify_id env d = Inr r"
      "\<exists>e. map_of d ''expiration_date'' = Some (Str e) \<and> now < e"
    then show "r \<in> set res" using to_res by (simp only: m [symmetric])
  qed
  have p3: "\<forall>d\<in>set c. \<forall>r s e. stringify_id env d = Inr r \<and>
              map_of d ''start_date'' = Some (Str s) \<and> now < s \<and>
              map_of d ''expiration_date'' = Some (Str e) \<and> now < e \<longrightarrow> r \<in> set res"
    using p2 by blast
  from g p1 p2 p3 show ?thesis by blast
qed

text \<open>
  C1, as stated: an announcement whose expiration_date is in the future relative to the
  query time is listed. It does not hold for every stored expiration_date: the date
  validator accepts a timestamp written with a space where the clock writes \<^verbatim>\<open>T\<close>,
  and such a string is smaller than every clock string of the same day. At ten in the
  morning the announcement that expires at eleven in the evening of that day is not
  listed.
\<close>

theorem later_today_not_listed:
  "valid_datetime morning \<and> valid_datetime evening \<and> before morning evening \<and>
   isoformat morning = ''2026-11-04T10:00:00'' \<and>
   isoformat_sep CHR '' '' evening = ''2026-11-04 23:00:00'' \<and>
   map_of evening_doc ''expiration_date'' = Some (Str ''2026-11-04 23:00:00'') \<and>
   get_announcements test_env [evening_doc] ''2026-11-04T10:00:00'' = Inr []"
proof -
  have "valid_datetime morning" "valid_datetime evening" "before morning evening"
    by (simp_all add: valid_datetime_def morning_def evening_def before_def)
  moreover have "isoformat morning = ''2026-11-04T10:00:00''"
    by code_simp
  moreover have "isoformat_sep CHR '' '' evening = ''2026-11-04 23:00:00''"
    by code_simp
  moreover have "map_of evening_doc ''expiration_date'' = Some (Str ''2026-11-04 23:00:00'')"
    by (simp add: evening_doc_def)
  moreover have "get_announcements test_env [evening_doc] ''2026-11-04T10:00:00'' = Inr []"
    by (simp add: get_announcements_def coll_find_def evening_doc_def sort_newest_first_def)
  ultimately show ?thesis by (simp only: simp_thms)
qed

text \<open>
  C1, amended. On a collection whose documents have an \<^verbatim>\<open>_id\<close> and a created_at that
  is absent or a string, the active listing at the time \<open>n\<close> returns; every record it
  returns is a stored document with its id as a string; a stored document is returned
  exactly when its expiration_date is a string strictly greater than the clock's ISO
  string in the lexicographic order; when the expiration_date is written as the clock
  writes times, that is exactly when \<open>n\<close> is before the expiration time, so an
  announcement that has expired is left out and one that expires later is listed;
  start_date is not looked at, so a document whose start_date is after the clock's
  string is returned when its expiration_date is.
\<close>

theorem list_active_by_expiration:
  assumes "\<forall>d\<in>set c. map_of d ''_id'' \<noteq> None"
    and "\<forall>d\<in>set c. is_Str (created_key d)"
    and "valid_datetime n"
  shows "\<exists>res. get_announcements env c (isoformat n) = Inr res \<and>
           (\<forall>r\<in>set res. \<exists>d\<in>set c. stringify_id env d = Inr r) \<and>
           (\<forall>d\<in>set c. \<forall>r. stringify_id env d = Inr r \<longrightarrow>
              (r \<in> set res \<longleftrightarrow>
                 (\<exists>e. map_of d ''expiration_date'' = Some (Str e) \<and> isoformat n < e))) \<and>
           (\<forall>d\<in>set c. \<forall>r e. stringify_id env d = Inr r \<and> valid_datetime e \<and>
              map_of d ''expiration_date'' = Some (Str (isoformat e)) \<longrightarrow>
              (r \<in> set res \<longleftrightarrow> before n e)) \<and>
           (\<forall>d\<in>set c. \<forall>r s e. stringify_id env d = Inr r \<and>
              map_of d ''start_date'' = Some (Str s) \<and> isoformat n < s \<and>
              map_of d ''expiration_date'' = Some (Str e) \<and> isoformat n < e \<longrightarrow> r \<in> set res)"
proof -
  from active_listing [OF assms(1,2), of env "isoformat n"] obtain res where
    g: "get_announcements env c (isoformat n) = Inr res"
    and p1: "\<forall>r\<in>set res. \<exists>d\<in>set c. stringify_id env d = Inr r"
    and p2: "\<forall>d\<in>set c. \<forall>r. stringify_id env d = Inr r \<longrightarrow>
              (r \<in> set res \<longleftrightarrow>
                 (\<exists>e. map_of d ''expiration_date'' = Some (Str e) \<and> isoformat n < e))"
    and p3: "\<forall>d\<in>set c. \<forall>r s e. stringify_id env d = Inr r \<and>
              map_of d ''start_date'' = Some (Str s) \<and> isoformat n < s \<and>
              map_of d ''expiration_date'' = Some (Str e) \<and> isoformat n < e \<longrightarrow> r \<in> set res"
    by blast
  have p4: "\<forall>d\<in>set c. \<forall>r e. stringify_id env d = Inr r \<and> valid_datetime e \<and>
              map_of d ''expiration_date'' = Some (Str (isoformat e)) \<longrightarrow>
              (r \<in> set res \<longleftrightarrow> before n e)"
  proof (intro ballI allI impI)
    fix d r e
    assume d: "d \<in> set c"
      and h: "stringify_id env d = Inr r \<and> valid_datetime e \<and>
              map_of d ''expiration_date'' = Some (Str (isoformat e))"
    from p2 d h have "r \<in> set res \<longleftrightarrow> isoformat n < isoformat e" by simp
    also have "\<dots> \<longleftrightarrow> before n e"
      using assms(3) h unfolding isoformat_def by (simp only: isoformat_sep_less_iff)
    finally show "r \<in> set res \<longleftrightarrow> before n e" .
  qed
  from g p1 p2 p4 p3 show ?thesis by blast
qed

theorem list_active_by_expiration_witness:
  "valid_datetime morning \<and> valid_datetime spring_end \<and> valid_datetime autumn_end \<and>
   before morning spring_end \<and> before autumn_end morning \<and>
   (\<exists>res spring autumn.
      get_announcements test_env [spring_doc, autumn_doc] (isoformat morning) = Inr res \<and>
      stringify_id test_env spring_doc = Inr spring \<and>
      stringify_id test_env autumn_doc = Inr autumn \<and>
      map_of spring_doc ''expiration_date'' = Some (Str (isoformat spring_end)) \<and>
      map_of autumn_doc ''expiration_date'' = Some (Str (isoformat autumn_end)) \<and>
      map_of spring_doc ''start_date'' = Some (Str ''2027-03-01T00:00:00'') \<and>
      isoformat morning < ''2027-03-01T00:00:00'' \<and>
      spring \<in> set res \<and> autumn \<notin> set res)"
proof -
  have v: "valid_datetime morning" "valid_datetime spring_end" "valid_datetime autumn_end"
    by (simp_all add: valid_datetime_def morning_def spring_end_def autumn_end_def)
  have b: "before morning spring_end" "before autumn_end morning" "\<not> before morning autumn_end"
    by (simp_all add: before_def morning_def spring_end_def autumn_end_def)
  have i0: "isoformat morning = ''2026-11-04T10:00:00''" by code_simp
  have i1: "isoformat spring_end = ''2027-03-20T18:30:00''" by code_simp
  have i2: "isoformat autumn_end = ''2026-10-01T12:00:00''" by code_simp
  have ids: "\<forall>d\<in>set [spring_doc, autumn_doc]. map_of d ''_id'' \<noteq> None"
    by (simp add: spring_doc_def autumn_doc_def)
  have keys: "\<forall>d\<in>set [spring_doc, autumn_doc]. is_Str (created_key d)"
    by (simp add: spring_doc_def autumn_doc_def created_key_def)
  from list_active_by_expiration [OF ids keys v(1), of test_env] obtain res where
    g: "get_announcements test_env [spring_doc, autumn_doc] (isoformat morning) = Inr res"
    and iff: "\<forall>d\<in>set [spring_doc, autumn_doc]. \<forall>r e. stringify_id test_env d = Inr r \<and>
              valid_datetime e \<and> map_of d ''expiration_date'' = Some (Str (isoformat e)) \<longrightarrow>
              (r \<in> set res \<longleftrightarrow> before morning e)"
    by blast
  obtain spring where s: "stringify_id test_env spring_doc = Inr spring"
    by (simp add: stringify_id_def spring_doc_def)
  obtain autumn where a: "stringify_id test_env autumn_doc = Inr autumn"
    by (simp add: stringify_id_def autumn_doc_def)
  have se: "map_of spring_doc ''expiration_date'' = Some (Str (isoformat spring_end))"
    by (simp add: i1 spring_doc_def)
  have ae: "map_of autumn_doc ''expiration_date'' = Some (Str (isoformat autumn_end))"
    by (simp add: i2 autumn_doc_def)
  have ss: "map_of spring_doc ''start_date'' = Some (Str ''2027-03-01T00:00:00'')"
    by (simp add: spring_doc_def)
  have lt: "isoformat morning < ''2027-03-01T00:00:00''"
    by (simp add: i0)
  from iff s se v(2) b(1) have m1: "spring \<in> set res" by simp
  from iff a ae v(3) b(3) have m2: "autumn \<notin> set res" by simp
  have "\<exists>res spring autumn.
      get_announcements test_env [spring_doc, autumn_doc] (isoformat morning) = Inr res \<and>
      stringify_id test_env spring_doc = Inr spring \<and>
      stringify_id test_env autumn_doc = Inr autumn \<and>
      map_of spring_doc ''expiration_date'' = Some (Str (isoformat spring_end)) \<and>
      map_of autumn_doc ''expiration_date'' = Some (Str (isoformat autumn_end)) \<and>
      map_of spring_doc ''start_date'' = Some (Str ''2027-03-01T00:00:00'') \<and>
      isoformat morning < ''2027-03-01T00:00:00'' \<and>
      spring \<in> set res \<and> autumn \<notin> set res"
    by (rule exI [of _ res], rule exI [of _ spring], rule exI [of _ autumn])
       (simp only: g s a se ae ss lt m1 m2 simp_thms)
  with v b(1,2) show ?thesis by (simp only: simp_thms)
qed

subsection \<open>Create, then list\<close>

lemma announcement_doc_no_id: "map_of (announcement_doc a uname now) ''_id'' = None"
  by (simp add: announcement_doc_def)

lemma insert_one_fresh:
  assumes "\<forall>d\<in>set c. map_of d ''_id'' \<noteq> Some (Oid new_id)"
    and "map_of d ''_id'' = None"
  shows "insert_one c new_id d =
           Inr (c @ [AList.update ''_id'' (Oid new_id) d], AList.update ''_id'' (Oid new_id) d,
                Oid new_id)"
  using assms by (simp add: insert_one_def Let_def update_conv' list_ex_iff)

text \<open>
  C2. A create request within the length bounds whose dates pass validation, made by a
  principal with a username, on a collection that does not hold the generated id yet,
  succeeds; the record it returns carries the generated id as a string and the
  submitted title, message, start_date and expiration_date, and the listing of all
  announcements on the collection it leaves returns that very record.
\<close>

theorem create_then_list_all:
  assumes "valid_AnnouncementCreate a"
    and "case start_date a of None \<Rightarrow> True | Some s \<Rightarrow> s = [] \<or> validate_date env s"
    and "validate_date env (expiration_date a)"
    and "map_of current_user ''username'' = Some username"
    and "\<forall>d\<in>set c. map_of d ''_id'' \<noteq> Some (Oid new_id)"
    and "\<forall>d\<in>set c. map_of d ''_id'' \<noteq> None"
    and "\<forall>d\<in>set c. is_Str (created_key d)"
  shows "\<exists>r c' everything.
           create_announcement env c now new_id a current_user = (Inr r, c') \<and>
           get_all_announcements env c' reader = Inr everything \<and>
           r \<in> set everything \<and>
           map_of r ''_id'' = Some (Str (oid_str env new_id)) \<and>
           map_of r ''title'' = Some (Str (title a)) \<and>
           map_of r ''message'' = Some (Str (message a)) \<and>
           map_of r ''start_date'' = Some (case start_date a of None \<Rightarrow> Null | Some s \<Rightarrow> Str s) \<and>
           map_of r ''expiration_date'' = Some (Str (expiration_date a))"
proof -
  define d where "d = announcement_doc a username now"
  define d' where "d' = AList.update ''_id'' (Oid new_id) d"
  define r where "r = AList.update ''_id'' (Str (oid_str env new_id)) d'"
  define c' where "c' = c @ [d']"
  have "map_of d ''_id'' = None" unfolding d_def by (rule announcement_doc_no_id)
  with assms(5) have ins: "insert_one c new_id d = Inr (c', d', Oid new_id)"
    unfolding c'_def d'_def by (rule insert_one_fresh)
  have cr: "create_announcement env c now new_id a current_user = (Inr r, c')"
    using assms(2,3,4) ins
    by (simp add: create_announcement_def d_def [symmetric] r_def py_str_def split: option.splits)
  have id': "map_of d' ''_id'' = Some (Oid new_id)"
    by (simp add: d'_def update_conv')
  have key': "created_key d' = Str now"
    by (simp add: created_key_def d'_def d_def update_conv' announcement_doc_def)
  have sr: "stringify_id env d' = Inr r"
    by (simp add: stringify_id_def id' r_def py_str_def)
  have ids': "\<forall>x\<in>set c'. map_of x ''_id'' \<noteq> None"
    using assms(6) id' by (auto simp: c'_def)
  have keys': "\<forall>x\<in>set c'. is_Str (created_key x)"
    using assms(7) key' by (auto simp: c'_def)
  from listing [OF ids' keys', of env Q_all] obtain rs everything where
    l: "stringify_ids env (coll_find c' Q_all) = Inr rs"
       "list_all2 (\<lambda>d r. stringify_id env d = Inr r) (coll_find c' Q_all) rs"
       "sort_newest_first rs = Inr everything" "set everything = set rs"
    by blast
  have ga: "get_all_announcements env c' reader = Inr everything"
    by (simp add: get_all_announcements_def l(1,3))
  have "d' \<in> set (coll_find c' Q_all)" by (simp add: coll_find_def c'_def)
  with l(2) obtain r' where "r' \<in> set rs" "stringify_id env d' = Inr r'"
    by (blast dest: all2_left)
  with sr l(4) have mem: "r \<in> set everything" by simp
  have f: "map_of r ''_id'' = Some (Str (oid_str env new_id))"
          "map_of r ''title'' = Some (Str (title a))"
          "map_of r ''message'' = Some (Str (message a))"
          "map_of r ''start_date'' = Some (case start_date a of None \<Rightarrow> Null | Some s \<Rightarrow> Str s)"
          "map_of r ''expiration_date'' = Some (Str (expiration_date a))"
    by (simp_all add: r_def d'_def d_def update_conv' announcement_doc_def)
  from cr ga mem f show ?thesis by blast
qed

theorem create_then_list_all_witness:
  "valid_AnnouncementCreate greeting \<and>
   validate_date test_env ''2030-01-01'' \<and>
   validate_date test_env (expiration_date greeting) \<and>
   map_of alice ''username'' = Some (Str ''alice'') \<and>
   (\<exists>r c' everything.
      create_announcement test_env [exams_doc, sports_doc] ''2026-11-06T08:00:00'' 3 greeting alice =
        (Inr r, c') \<and>
      get_all_announcements test_env c' alice = Inr everything \<and>
      r \<in> set everything \<and>
      map_of r ''_id'' = Some (Str ''65f0000000000000000000a3'') \<and>
      map_of r ''title'' = Some (Str ''Welcome'') \<and>
      map_of r ''message'' = Some (Str ''Term starts'') \<and>
      map_of r ''start_date'' = Some (Str ''2030-01-01'') \<and>
      map_of r ''expiration_date'' = Some (Str ''2030-01-01T00:00:00Z''))"
proof -
  have h1: "valid_AnnouncementCreate greeting"
    by (simp add: valid_AnnouncementCreate_def greeting_def)
  have v: "validate_date test_env ''2030-01-01''"
    by (simp add: validate_date_def replace_Z_def test_env_def)
  then have h2: "case start_date greeting of None \<Rightarrow> True
                 | Some s \<Rightarrow> s = [] \<or> validate_date test_env s"
    by (simp add: greeting_def)
  have h3: "validate_date test_env (expiration_date greeting)"
    by (simp add: greeting_def validate_date_def replace_Z_def test_env_def)
  have h4: "map_of alice ''username'' = Some (Str ''alice'')"
    by (simp add: alice_def)
  have h5: "\<forall>d\<in>set [exams_doc, sports_doc]. map_of d ''_id'' \<noteq> Some (Oid 3)"
    by (simp add: exams_doc_def sports_doc_def)
  have h6: "\<forall>d\<in>set [exams_doc, sports_doc]. map_of d ''_id'' \<noteq> None"
    by (simp add: exams_doc_def sports_doc_def)
  have h7: "\<forall>d\<in>set [exams_doc, sports_doc]. is_Str (created_key d)"
    by (simp add: exams_doc_def sports_doc_def created_key_def)
  from create_then_list_all [OF h1 h2 h3 h4 h5 h6 h7, of "''2026-11-06T08:00:00''" alice]
  obtain r c' everything where
    c: "create_announcement test_env [exams_doc, sports_doc] ''2026-11-06T08:00:00'' 3 greeting alice =
          (Inr r, c')"
       "get_all_announcements test_env c' alice = Inr everything"
       "r \<in> set everything"
       "map_of r ''_id'' = Some (Str (oid_str test_env 3))"
       "map_of r ''title'' = Some (Str (title greeting))"
       "map_of r ''message'' = Some (Str (message greeting))"
       "map_of r ''start_date'' = Some (case start_date greeting of None \<Rightarrow> Null | Some s \<Rightarrow> Str s)"
       "map_of r ''expiration_date'' = Some (Str (expiration_date greeting))"
    by blast
  have "\<exists>r c' everything.
      create_announcement test_env [exams_doc, sports_doc] ''2026-11-06T08:00:00'' 3 greeting alice =
        (Inr r, c') \<and>
      get_all_announcements test_env c' alice = Inr everything \<and>
      r \<in> set everything \<and>
      map_of r ''_id'' = Some (Str ''65f0000000000000000000a3'') \<and>
      map_of r ''title'' = Some (Str ''Welcome'') \<and>
      map_of r ''message'' = Some (Str ''Term starts'') \<and>
      map_of r ''start_date'' = Some (Str ''2030-01-01'') \<and>
      map_of r ''expiration_date'' = Some (Str ''2030-01-01T00:00:00Z'')"
    apply (rule exI [of _ r], rule exI [of _ c'], rule exI [of _ everything])
    using c by (simp add: greeting_def test_env_def)
  with h1 v h3 h4 show ?thesis by (simp only: simp_thms)
qed

end
